theory Spec2Isabelle
  imports Complex_Main
begin

section \<open>Python numbers\<close>

text \<open>The exceptions of Python that end the evaluation instead of returning a result.\<close>

datatype py_exception = AttributeError | KeyError | OverflowError

text \<open>
  The token of a number holds a Python \<^verbatim>\<open>int\<close> or a Python \<^verbatim>\<open>float\<close>, and the
  for-loop of \<^verbatim>\<open>interpreter.py\<close> computes on them with Python's own \<^verbatim>\<open>+\<close>, \<^verbatim>\<open><\<close>,
  \<^verbatim>\<open>>\<close> and \<^verbatim>\<open>>=\<close>. An \<^verbatim>\<open>int\<close> is unbounded. A \<^verbatim>\<open>float\<close> is a binary64 number
  of IEEE 754: \<open>Finite x\<close> is the number \<open>x\<close> (with \<open>Finite 0\<close> the positive zero),
  \<open>NegZero\<close> the negative zero, then the two infinities and the value that is not a number.
\<close>

datatype pyfloat = Finite real | NegZero | PosInf | NegInf | NaN

datatype pynum = PyInt int | PyFloat pyfloat

text \<open>Rounding to the nearest integer, a tie going to the even one.\<close>

definition round_half_even :: "real \<Rightarrow> int" where
  "round_half_even y =
     (if y - of_int \<lfloor>y\<rfloor> < 1 / 2 then \<lfloor>y\<rfloor>
      else if y - of_int \<lfloor>y\<rfloor> > 1 / 2 then \<lfloor>y\<rfloor> + 1
      else if even \<lfloor>y\<rfloor> then \<lfloor>y\<rfloor> else \<lfloor>y\<rfloor> + 1)"

text \<open>
  The binary64 number nearest to a real number, a tie going to the even significand: the
  significand has 53 bits, the exponent of a normal number is at least \<open>-1022\<close>, below
  which the spacing stays \<open>2 ^ -1074\<close>, and a result of magnitude \<open>2 ^ 1024\<close> or more is
  an infinity.
\<close>

definition round_double :: "real \<Rightarrow> pyfloat" where
  "round_double x =
     (if x = 0 then Finite 0
      else let e = max \<lfloor>log 2 \<bar>x\<bar>\<rfloor> (- 1022);
               q = 2 powr (of_int (e - 52));
               r = q * of_int (round_half_even (x / q))
           in if \<bar>r\<bar> \<ge> 2 ^ 1024 then (if x > 0 then PosInf else NegInf)
              else if r = 0 then (if x > 0 then Finite 0 else NegZero)
              else Finite r)"

text \<open>The number that a finite float denotes.\<close>

fun finite_value :: "pyfloat \<Rightarrow> real" where
  "finite_value (Finite x) = x"
| "finite_value _ = 0"

text \<open>
  The comparisons of two floats: every comparison with the value that is not a number is
  false, and the two zeros are equal.
\<close>

fun float_less :: "pyfloat \<Rightarrow> pyfloat \<Rightarrow> bool" where
  "float_less NaN _ = False"
| "float_less _ NaN = False"
| "float_less PosInf _ = False"
| "float_less _ NegInf = False"
| "float_less NegInf _ = True"
| "float_less _ PosInf = True"
| "float_less a b = (finite_value a < finite_value b)"

definition float_le :: "pyfloat \<Rightarrow> pyfloat \<Rightarrow> bool" where
  "float_le a b = (a \<noteq> NaN \<and> b \<noteq> NaN \<and> \<not> float_less b a)"

text \<open>
  Python compares an \<^verbatim>\<open>int\<close> with a \<^verbatim>\<open>float\<close> by their exact values: the
  \<^verbatim>\<open>int\<close> is not rounded first.
\<close>

fun exact :: "pynum \<Rightarrow> pyfloat" where
  "exact (PyInt i) = Finite (of_int i)"
| "exact (PyFloat f) = f"

definition py_less :: "pynum \<Rightarrow> pynum \<Rightarrow> bool" where
  "py_less a b = float_less (exact a) (exact b)"

definition py_le :: "pynum \<Rightarrow> pynum \<Rightarrow> bool" where
  "py_le a b = float_le (exact a) (exact b)"

definition py_eq :: "pynum \<Rightarrow> pynum \<Rightarrow> bool" where
  "py_eq a b = (py_le a b \<and> py_le b a)"

text \<open>
  The sum of two floats: the exact sum, rounded. The sum of two negative zeros is the
  negative zero, any other sum that is exactly zero is the positive zero, and infinities of
  opposite signs have no sum.
\<close>

fun float_add :: "pyfloat \<Rightarrow> pyfloat \<Rightarrow> pyfloat" where
  "float_add NaN _ = NaN"
| "float_add _ NaN = NaN"
| "float_add PosInf NegInf = NaN"
| "float_add NegInf PosInf = NaN"
| "float_add PosInf _ = PosInf"
| "float_add _ PosInf = PosInf"
| "float_add NegInf _ = NegInf"
| "float_add _ NegInf = NegInf"
| "float_add NegZero NegZero = NegZero"
| "float_add a b = round_double (finite_value a + finite_value b)"

text \<open>
  The conversion of an \<^verbatim>\<open>int\<close> to a \<^verbatim>\<open>float\<close> rounds, and raises
  \<^verbatim>\<open>OverflowError\<close> when the \<^verbatim>\<open>int\<close> is too large.
\<close>

definition int_to_float :: "int \<Rightarrow> py_exception + pyfloat" where
  "int_to_float i =
     (case round_double (of_int i) of
        PosInf \<Rightarrow> Inl OverflowError
      | NegInf \<Rightarrow> Inl OverflowError
      | f \<Rightarrow> Inr f)"

text \<open>
  Python's \<^verbatim>\<open>a + b\<close>: exact on two \<^verbatim>\<open>int\<close>s; otherwise the \<^verbatim>\<open>int\<close> operand, if
  any, is converted and the floats are added.
\<close>

fun py_add :: "pynum \<Rightarrow> pynum \<Rightarrow> py_exception + pynum" where
  "py_add (PyInt i) (PyInt j) = Inr (PyInt (i + j))"
| "py_add (PyInt i) (PyFloat g) =
     (case int_to_float i of Inl x \<Rightarrow> Inl x | Inr f \<Rightarrow> Inr (PyFloat (float_add f g)))"
| "py_add (PyFloat f) (PyInt j) =
     (case int_to_float j of Inl x \<Rightarrow> Inl x | Inr g \<Rightarrow> Inr (PyFloat (float_add f g)))"
| "py_add (PyFloat f) (PyFloat g) = Inr (PyFloat (float_add f g))"

section \<open>Data model\<close>

text \<open>
  Modelled from the spec: source positions, tokens, AST nodes, execution contexts and
  runtime values are classes of the repository that are not among the sources. Their
  fields are those of the data model (section 3) and of the node shapes (section 6), under
  the names by which \<^verbatim>\<open>interpreter.py\<close>, \<^verbatim>\<open>errors.py\<close> and
  \<^verbatim>\<open>symbol_table.py\<close> read them.
\<close>

record position =
  idx :: nat
  ln :: nat
  col :: nat
  fn :: string
  ftxt :: string

text \<open>
  Modelled from the spec: the class Context (section 3) is not among the sources. A
  context is never mutated after its creation, so the chain of parent contexts is a
  value. Its symbol table is mutated in place and shared with closures, so the context
  holds the address of the table in the store.
\<close>

datatype py_context =
  Context (display_name: string) (parent_context: "py_context option")
          (parent_entry_pos: "position option") (symbol_table: nat)

text \<open>
  Modelled from the spec: the token types that \<^verbatim>\<open>visit_binopnode\<close> and \<^verbatim>\<open>visit_unaryopnode\<close>
  test, and a token with its type and its optional value (section 6).
\<close>

datatype token_type =
    TP_PLUS | TP_MINUS | TP_POWER | TP_MUL | TP_DIV | TP_MODULO | TP_CLEAN_DIV
  | TP_NE | TP_EE | TP_LT | TP_LTE | TP_GT | TP_GTE | TP_KEYWORD

datatype token = Token (tok_type: token_type) (tok_value: "string option")

definition matches :: "token \<Rightarrow> token_type \<Rightarrow> string \<Rightarrow> bool" where
  "matches t ty v = (tok_type t = ty \<and> tok_value t = Some v)"

text \<open>
  Modelled from the spec: the fifteen node classes (section 6) are not among the sources.
  Every node carries its start and end position (the last two arguments). A number node
  holds the value of its token and a variable node the name of its token.
\<close>

datatype node =
    NumberNode pynum position position
  | StringNode string position position
  | ListNode "node list" position position
  | BinOpNode node token node position position
  | UnaryOpNode token node position position
  | VarAccessNode string position position
  | VarAssignNode string node position position
  | IfNode "(node \<times> node \<times> bool) list" "(node \<times> bool) option" position position
  | ForNode string node node "node option" node bool position position
  | WhileNode node node bool position position
  | FuncDefNode "string option" "string list" node bool position position
  | CallNode node "node list" position position
  | ReturnNode "node option" position position
  | ContinueNode position position
  | BreakNode position position

text \<open>
  Modelled from the spec: the classes of the runtime values (section 3) are not among the
  sources. A Python variable holds an object or \<^verbatim>\<open>None\<close>: \<open>rvalue option\<close>. A Number
  holds a Python number, an \<^verbatim>\<open>int\<close> or a \<^verbatim>\<open>float\<close>. A list is held by value.
\<close>

datatype payload =
    Number pynum
  | String string
  | List "rvalue option list"
  | Function (name: "string option") (body_node: node) (arg_names: "string list")
             (should_auto_return: bool)
and rvalue =
  Value (payload: payload) (start_pos: "position option") (end_pos: "position option")
        (val_context: "py_context option")

text \<open>
  Modelled from the spec: a value just constructed has neither a position nor a context (section 3);
  \<open>new_Number x\<close> is \<^verbatim>\<open>Number(x)\<close>.
\<close>

definition new_Number :: "pynum \<Rightarrow> rvalue" where
  "new_Number x = Value (Number x) None None None"

text \<open>
  Modelled from the spec: \<open>new_String s\<close> is \<^verbatim>\<open>String(s)\<close>.
\<close>

definition new_String :: "string \<Rightarrow> rvalue" where
  "new_String s = Value (String s) None None None"

text \<open>
  Modelled from the spec: \<open>new_List elements\<close> is \<^verbatim>\<open>List(elements)\<close>.
\<close>

definition new_List :: "rvalue option list \<Rightarrow> rvalue" where
  "new_List elements = Value (List elements) None None None"

text \<open>
  Modelled from the spec: the constructor of the class Function (interpreter.py, lines 366 to 377) stores
  its four arguments; position and context are those of a value just constructed.
\<close>

definition new_Function :: "string option \<Rightarrow> node \<Rightarrow> string list \<Rightarrow> bool \<Rightarrow> rvalue" where
  "new_Function nm body args auto = Value (Function nm body args auto) None None None"

text \<open>
  Modelled from the spec: the setter of the optional position span of a value (section 3).
\<close>

definition set_position :: "rvalue \<Rightarrow> position option \<Rightarrow> position option \<Rightarrow> rvalue" where
  "set_position v s e = Value (payload v) s e (val_context v)"

text \<open>
  Modelled from the spec: the setter of the optional context of a value (section 3).
\<close>

definition set_context :: "rvalue \<Rightarrow> py_context option \<Rightarrow> rvalue" where
  "set_context v c = Value (payload v) (start_pos v) (end_pos v) c"

section \<open>Symbol tables (symbol\_table.py)\<close>

text \<open>
  A symbol table is an object: its dictionary is mutated in place and the table is shared
  by every context and child table that refers to it. The store is the list of the
  tables allocated so far; the address of a table is its index.
\<close>

record symbol_table_obj =
  symbols :: "string \<rightharpoonup> rvalue option"
  parent :: "nat option"

type_synonym heap = "symbol_table_obj list"

text \<open>The constructor allocates the table and returns its address.\<close>

definition SymbolTable :: "nat option \<Rightarrow> heap \<Rightarrow> nat \<times> heap" where
  "SymbolTable parent_table h =
     (length h,
      h @ [\<lparr>symbols = [''NULL'' \<mapsto> Some (new_Number (PyInt 0)),
                       ''TRUE'' \<mapsto> Some (new_Number (PyInt 1)),
                       ''FALSE'' \<mapsto> Some (new_Number (PyInt 0))],
             parent = parent_table\<rparr>])"

text \<open>
  \<^verbatim>\<open>get\<close> recurses along the parent links; \<open>None\<close> is a lookup that does not return.
  A key that holds \<^verbatim>\<open>None\<close> is passed over like a missing key, as in the source.
\<close>

partial_function (option) get :: "heap \<Rightarrow> nat \<Rightarrow> string \<Rightarrow> rvalue option \<Rightarrow> rvalue option option" where
  "get h self variable_name dflt =
     (let variable_value = (case symbols (h ! self) variable_name of Some v \<Rightarrow> v | None \<Rightarrow> dflt)
      in case (variable_value, parent (h ! self)) of
           (None, Some p) \<Rightarrow> get h p variable_name dflt
         | _ \<Rightarrow> Some variable_value)"

definition set_sym :: "heap \<Rightarrow> nat \<Rightarrow> string \<Rightarrow> rvalue option \<Rightarrow> heap" where
  "set_sym h self variable_name variable_value =
     h[self := (h ! self)\<lparr>symbols := (symbols (h ! self))(variable_name \<mapsto> variable_value)\<rparr>]"

text \<open>\<^verbatim>\<open>del d[k]\<close> raises \<^verbatim>\<open>KeyError\<close> when the key is missing.\<close>

definition remove_sym :: "heap \<Rightarrow> nat \<Rightarrow> string \<Rightarrow> py_exception + heap" where
  "remove_sym h self variable_name =
     (case symbols (h ! self) variable_name of
        None \<Rightarrow> Inl KeyError
      | Some _ \<Rightarrow> Inr (h[self := (h ! self)\<lparr>symbols := (symbols (h ! self))(variable_name := None)\<rparr>]))"

text \<open>
  The parent of a table is given to its constructor, so it was allocated before the table:
  parent links lead to smaller addresses.
\<close>

definition wf_heap :: "heap \<Rightarrow> bool" where
  "wf_heap h = (\<forall>r < length h. \<forall>p. parent (h ! r) = Some p \<longrightarrow> p < r)"

text \<open>\<open>in_chain h r a\<close>: the table \<open>a\<close> is \<open>r\<close> or one of its ancestors.\<close>

inductive in_chain :: "heap \<Rightarrow> nat \<Rightarrow> nat \<Rightarrow> bool" where
  chain_self: "in_chain h r r"
| chain_parent: "parent (h ! r) = Some p \<Longrightarrow> in_chain h p a \<Longrightarrow> in_chain h r a"

text \<open>
  \<open>unshadowed h x d s\<close>: \<open>s\<close> is \<open>d\<close> or an ancestor of \<open>d\<close>, and no table on the way from
  \<open>d\<close> up to \<open>s\<close> (\<open>s\<close> excluded) has the key \<open>x\<close>.
\<close>

inductive unshadowed :: "heap \<Rightarrow> string \<Rightarrow> nat \<Rightarrow> nat \<Rightarrow> bool" where
  unshadowed_self: "unshadowed h x s s"
| unshadowed_parent:
    "symbols (h ! d) x = None \<Longrightarrow> parent (h ! d) = Some p \<Longrightarrow> unshadowed h x p s
     \<Longrightarrow> unshadowed h x d s"

section \<open>Runtime errors (errors.py)\<close>

record error =
  error_name :: string
  error_details :: string
  err_start_pos :: "position option"
  err_end_pos :: "position option"
  err_context :: "py_context option"

definition ActiveRuntimeError ::
  "string \<Rightarrow> position option \<Rightarrow> position option \<Rightarrow> py_context option \<Rightarrow> error" where
  "ActiveRuntimeError details s e c =
     \<lparr>error_name = ''ActiveRuntimeError'',
      error_details = ''Runtime error encountered ('' @ details @ '').'',
      err_start_pos = s, err_end_pos = e, err_context = c\<rparr>"

text \<open>The decimal numeral that \<^verbatim>\<open>format\<close> prints for a line number.\<close>

fun str_nat :: "nat \<Rightarrow> string" where
  "str_nat n =
     (if n < 10 then [''0123456789'' ! n] else str_nat (n div 10) @ [''0123456789'' ! (n mod 10)])"

definition frame_line :: "position \<Rightarrow> py_context \<Rightarrow> string" where
  "frame_line p c =
     ''File '' @ fn p @ '', line '' @ str_nat (ln p + 1) @ '', in '' @ display_name c @ [CHR 0x0A]"

text \<open>
  The loop of \<^verbatim>\<open>generate_traceback\<close>: each frame is put in front of the text built so
  far. Reading \<^verbatim>\<open>position.fn\<close> when the position is \<^verbatim>\<open>None\<close> raises.
\<close>

fun traceback_loop :: "py_context option \<Rightarrow> position option \<Rightarrow> string \<Rightarrow> py_exception + string" where
  "traceback_loop None p result = Inr result"
| "traceback_loop (Some c) None result = Inl AttributeError"
| "traceback_loop (Some (Context nm parent_ctx entry_pos st)) (Some p) result =
     traceback_loop parent_ctx entry_pos (frame_line p (Context nm parent_ctx entry_pos st) @ result)"

definition generate_traceback :: "error \<Rightarrow> py_exception + string" where
  "generate_traceback e =
     (case traceback_loop (err_context e) (err_start_pos e) [] of
        Inl x \<Rightarrow> Inl x
      | Inr result \<Rightarrow> Inr ([CHR 0x0A] @ ''Traceback (most recent call last):'' @ [CHR 0x0A] @ result))"

text \<open>
  The frames of a traceback, innermost first: the failure site in the context of the
  error, then each parent context at the position where it was left.
\<close>

fun frames :: "py_context \<Rightarrow> position option \<Rightarrow> (position option \<times> py_context) list" where
  "frames (Context nm parent_ctx entry_pos st) p =
     (p, Context nm parent_ctx entry_pos st)
     # (case parent_ctx of None \<Rightarrow> [] | Some c' \<Rightarrow> frames c' entry_pos)"

section \<open>Control-flow results\<close>

text \<open>
  Modelled from the spec: the class \<^verbatim>\<open>RuntimeResult\<close> (sections 3 and 4.D) is not among
  the sources. It is a record of five fields, of which exactly one is meaningful.
\<close>

record runtime_result =
  rr_value :: "rvalue option"
  rr_error :: "error option"
  func_return_value :: "rvalue option"
  loop_should_continue :: bool
  loop_should_break :: bool

text \<open>
  Modelled from the spec: a result just constructed: no value, no error, no signal.
\<close>

definition RuntimeResult :: runtime_result where
  "RuntimeResult = \<lparr>rr_value = None, rr_error = None, func_return_value = None,
                    loop_should_continue = False, loop_should_break = False\<rparr>"

text \<open>
  Modelled from the spec: \<^verbatim>\<open>register(inner)\<close> copies the error and the control-flow signals of the
  inner result into the result and yields the value of the inner result (section 4.D).
\<close>

definition register :: "runtime_result \<Rightarrow> runtime_result \<Rightarrow> rvalue option \<times> runtime_result" where
  "register rr res =
     (rr_value res,
      rr\<lparr>rr_error := rr_error res, func_return_value := func_return_value res,
         loop_should_continue := loop_should_continue res,
         loop_should_break := loop_should_break res\<rparr>)"

text \<open>
  Modelled from the spec: \<^verbatim>\<open>success(value)\<close> is the value path; like every creator it leaves the
  other fields unset (section 3).
\<close>

definition success :: "runtime_result \<Rightarrow> rvalue option \<Rightarrow> runtime_result" where
  "success rr v = RuntimeResult\<lparr>rr_value := v\<rparr>"

text \<open>
  Modelled from the spec: \<^verbatim>\<open>failure(error)\<close> is the error path (section 4.D).
\<close>

definition failure :: "runtime_result \<Rightarrow> error \<Rightarrow> runtime_result" where
  "failure rr e = RuntimeResult\<lparr>rr_error := Some e\<rparr>"

text \<open>
  Modelled from the spec: \<^verbatim>\<open>success_return(value)\<close> carries the return of a function (section 4.D).
\<close>

definition success_return :: "runtime_result \<Rightarrow> rvalue option \<Rightarrow> runtime_result" where
  "success_return rr v = RuntimeResult\<lparr>func_return_value := v\<rparr>"

text \<open>
  Modelled from the spec: \<^verbatim>\<open>success_continue()\<close> carries the continue of a loop (section 4.D).
\<close>

definition success_continue :: "runtime_result \<Rightarrow> runtime_result" where
  "success_continue rr = RuntimeResult\<lparr>loop_should_continue := True\<rparr>"

text \<open>
  Modelled from the spec: \<^verbatim>\<open>success_break()\<close> carries the break of a loop (section 4.D).
\<close>

definition success_break :: "runtime_result \<Rightarrow> runtime_result" where
  "success_break rr = RuntimeResult\<lparr>loop_should_break := True\<rparr>"

text \<open>
  Modelled from the spec: \<^verbatim>\<open>should_return()\<close> is true when the error, the return value, the break
  flag or the continue flag is set (section 4.D).
\<close>

definition should_return :: "runtime_result \<Rightarrow> bool" where
  "should_return rr =
     (rr_error rr \<noteq> None \<or> func_return_value rr \<noteq> None \<or> loop_should_continue rr
      \<or> loop_should_break rr)"

section \<open>Value operations\<close>

text \<open>
  Modelled from the spec: the operations of the runtime values (section 4.A) are not among
  the sources. An operation returns the pair (result, error) with exactly one part set.
\<close>

text \<open>
  Modelled from the spec: an unsupported combination of operation and types returns an illegal-operation
  error whose position is the span of the receiver and whose context is the context of the
  receiver (section 4.A).
\<close>

definition illegal_operation :: "rvalue \<Rightarrow> rvalue option \<times> error option" where
  "illegal_operation self =
     (None, Some (ActiveRuntimeError ''Illegal operation'' (start_pos self) (end_pos self)
                    (val_context self)))"

text \<open>
  Modelled from the spec: an error about the right operand, at the span of that operand (scenario 8 of
  section 8), in the context of the receiver.
\<close>

definition operand_error :: "string \<Rightarrow> rvalue \<Rightarrow> rvalue \<Rightarrow> rvalue option \<times> error option" where
  "operand_error details self other =
     (None, Some (ActiveRuntimeError details (start_pos other) (end_pos other) (val_context self)))"

text \<open>
  Modelled from the spec: the Number that an operation returns; it carries the context of
  the receiver, so that a value produced by a node has a context (section 3).
\<close>

definition number_result :: "rvalue \<Rightarrow> pynum \<Rightarrow> rvalue option \<times> error option" where
  "number_result self x = (Some (set_context (new_Number x) (val_context self)), None)"

text \<open>
  Modelled from the spec: a comparison or a logical operation returns 1 or 0 as a Number
  (section 4.A).
\<close>

definition bool_result :: "rvalue \<Rightarrow> bool \<Rightarrow> rvalue option \<times> error option" where
  "bool_result self b = number_result self (PyInt (if b then 1 else 0))"

text \<open>
  Modelled from the spec: the List that an operation returns, in the context of the receiver.
\<close>

definition list_result :: "rvalue \<Rightarrow> rvalue option list \<Rightarrow> rvalue option \<times> error option" where
  "list_result self xs = (Some (set_context (new_List xs) (val_context self)), None)"

text \<open>
  Modelled from the spec: the numeric scalar of a Number (section 3), when the Number is
  finite.
\<close>

definition num_value :: "pynum \<Rightarrow> real option" where
  "num_value a =
     (case a of
        PyInt i \<Rightarrow> Some (of_int i)
      | PyFloat (Finite x) \<Rightarrow> Some x
      | PyFloat NegZero \<Rightarrow> Some 0
      | _ \<Rightarrow> None)"

text \<open>
  Modelled from the spec: the arithmetic of Numbers (sections 3 and 4.A). An operation
  that keeps integers among themselves is exact on two integers (\<open>fi\<close>); any other result
  is the 64-bit float nearest to the result on the scalars (\<open>fr\<close>), and no number when an
  operand is not finite.
\<close>

definition float_operation :: "(real \<Rightarrow> real \<Rightarrow> real) \<Rightarrow> pynum \<Rightarrow> pynum \<Rightarrow> pynum" where
  "float_operation fr a b =
     (case (num_value a, num_value b) of
        (Some x, Some y) \<Rightarrow> PyFloat (round_double (fr x y))
      | _ \<Rightarrow> PyFloat NaN)"

definition operation ::
  "(int \<Rightarrow> int \<Rightarrow> int) \<Rightarrow> (real \<Rightarrow> real \<Rightarrow> real) \<Rightarrow> pynum \<Rightarrow> pynum \<Rightarrow> pynum" where
  "operation fi fr a b =
     (case (a, b) of
        (PyInt i, PyInt j) \<Rightarrow> PyInt (fi i j)
      | _ \<Rightarrow> float_operation fr a b)"

text \<open>
  Modelled from the spec: a Number is zero when its scalar is 0 (section 4.A).
\<close>

definition is_zero :: "pynum \<Rightarrow> bool" where
  "is_zero a = (num_value a = Some 0)"

text \<open>
  Modelled from the spec: the index that a Number denotes, and whether it is in range: a
  whole number from 0 up to the length of the list, excluded (section 4.A).
\<close>

definition index_of :: "pynum \<Rightarrow> nat" where
  "index_of n = (case num_value n of Some r \<Rightarrow> nat \<lfloor>r\<rfloor> | None \<Rightarrow> 0)"

definition valid_index :: "rvalue option list \<Rightarrow> pynum \<Rightarrow> bool" where
  "valid_index xs n =
     (case num_value n of
        Some r \<Rightarrow> r \<in> \<int> \<and> 0 \<le> r \<and> nat \<lfloor>r\<rfloor> < length xs
      | None \<Rightarrow> False)"

text \<open>
  Modelled from the spec: the payload of the right operand, when there is an object at all.
\<close>

definition operand :: "rvalue option \<Rightarrow> payload option" where
  "operand other = map_option payload other"

text \<open>
  Modelled from the spec: Number plus Number; String plus String is concatenation; List
  plus any value appends the value (section 4.A).
\<close>

definition add_to :: "rvalue \<Rightarrow> rvalue option \<Rightarrow> rvalue option \<times> error option" where
  "add_to self other =
     (case (payload self, operand other) of
        (Number a, Some (Number b)) \<Rightarrow> number_result self (operation (+) (+) a b)
      | (String a, Some (String b)) \<Rightarrow> (Some (set_context (new_String (a @ b)) (val_context self)), None)
      | (List xs, _) \<Rightarrow> list_result self (xs @ [other])
      | _ \<Rightarrow> illegal_operation self)"

text \<open>
  Modelled from the spec: Number minus Number; List minus Number removes the element at
  that index, and fails with "Index out of bounds" when the index is out of range
  (section 4.A).
\<close>

definition subtract_by :: "rvalue \<Rightarrow> rvalue option \<Rightarrow> rvalue option \<times> error option" where
  "subtract_by self other =
     (case (payload self, other) of
        (Number a, Some (Value (Number b) _ _ _)) \<Rightarrow> number_result self (operation (-) (-) a b)
      | (List xs, Some (Value (Number n) s e c)) \<Rightarrow>
          (if valid_index xs n
           then list_result self (take (index_of n) xs @ drop (Suc (index_of n)) xs)
           else operand_error ''Index out of bounds'' self (Value (Number n) s e c))
      | _ \<Rightarrow> illegal_operation self)"

text \<open>
  Modelled from the spec: Number times Number; String times Number repeats the string;
  List times List is concatenation (section 4.A).
\<close>

definition multiply_by :: "rvalue \<Rightarrow> rvalue option \<Rightarrow> rvalue option \<times> error option" where
  "multiply_by self other =
     (case (payload self, operand other) of
        (Number a, Some (Number b)) \<Rightarrow> number_result self (operation (*) (*) a b)
      | (String a, Some (Number n)) \<Rightarrow>
          (Some (set_context (new_String (concat (replicate (index_of n) a))) (val_context self)), None)
      | (List xs, Some (List ys)) \<Rightarrow> list_result self (xs @ ys)
      | _ \<Rightarrow> illegal_operation self)"

text \<open>
  Modelled from the spec: Number to the power of Number, the right operand being the
  exponent (section 4.A): exact for two integers of which the exponent is not negative;
  else the power of the field for a whole exponent and \<open>powr\<close> for any other.
\<close>

definition power_by :: "rvalue \<Rightarrow> rvalue option \<Rightarrow> rvalue option \<times> error option" where
  "power_by self other =
     (case (payload self, operand other) of
        (Number a, Some (Number b)) \<Rightarrow>
          number_result self
            (case (a, b) of
               (PyInt i, PyInt j) \<Rightarrow>
                 if 0 \<le> j then PyInt (i ^ nat j)
                 else float_operation (\<lambda>x y. 1 / x ^ nat \<lfloor>- y\<rfloor>) a b
             | _ \<Rightarrow>
                 float_operation
                   (\<lambda>x y. if y \<in> \<int> then (if 0 \<le> y then x ^ nat \<lfloor>y\<rfloor> else 1 / x ^ nat \<lfloor>- y\<rfloor>)
                          else x powr y) a b)
      | _ \<Rightarrow> illegal_operation self)"

text \<open>
  Modelled from the spec: Number by Number is the float quotient, and with the flag
  \<open>clean\<close> the integer quotient; a zero divisor fails with "Division by zero". List by
  Number is the element at that index, and fails with "Index out of bounds" when the index
  is out of range (section 4.A).
\<close>

definition divide_by :: "rvalue \<Rightarrow> rvalue option \<Rightarrow> bool \<Rightarrow> rvalue option \<times> error option" where
  "divide_by self other clean =
     (case (payload self, other) of
        (Number a, Some (Value (Number b) s e c)) \<Rightarrow>
          (if is_zero b then operand_error ''Division by zero'' self (Value (Number b) s e c)
           else number_result self
                  (if clean then operation (div) (\<lambda>x y. of_int \<lfloor>x / y\<rfloor>) a b
                   else float_operation (/) a b))
      | (List xs, Some (Value (Number n) s e c)) \<Rightarrow>
          (if valid_index xs n then (xs ! index_of n, None)
           else operand_error ''Index out of bounds'' self (Value (Number n) s e c))
      | _ \<Rightarrow> illegal_operation self)"

text \<open>
  Modelled from the spec: Number modulo Number; a zero divisor fails with "Division by
  zero" (section 4.A).
\<close>

definition modulo_by :: "rvalue \<Rightarrow> rvalue option \<Rightarrow> rvalue option \<times> error option" where
  "modulo_by self other =
     (case (payload self, other) of
        (Number a, Some (Value (Number b) s e c)) \<Rightarrow>
          (if is_zero b then operand_error ''Division by zero'' self (Value (Number b) s e c)
           else number_result self (operation (mod) (\<lambda>x y. x - y * of_int \<lfloor>x / y\<rfloor>) a b))
      | _ \<Rightarrow> illegal_operation self)"

text \<open>
  Modelled from the spec: equality of two Numbers, and of two Strings by their characters
  (section 4.A).
\<close>

definition get_comparison_ee :: "rvalue \<Rightarrow> rvalue option \<Rightarrow> rvalue option \<times> error option" where
  "get_comparison_ee self other =
     (case (payload self, operand other) of
        (Number a, Some (Number b)) \<Rightarrow> bool_result self (py_eq a b)
      | (String a, Some (String b)) \<Rightarrow> bool_result self (a = b)
      | _ \<Rightarrow> illegal_operation self)"

text \<open>
  Modelled from the spec: the comparison NE of two Numbers (section 4.A).
\<close>

definition get_comparison_ne :: "rvalue \<Rightarrow> rvalue option \<Rightarrow> rvalue option \<times> error option" where
  "get_comparison_ne self other =
     (case (payload self, operand other) of
        (Number a, Some (Number b)) \<Rightarrow> bool_result self (\<not> py_eq a b)
      | _ \<Rightarrow> illegal_operation self)"

text \<open>
  Modelled from the spec: the comparison LT of two Numbers (section 4.A).
\<close>

definition get_comparison_lt :: "rvalue \<Rightarrow> rvalue option \<Rightarrow> rvalue option \<times> error option" where
  "get_comparison_lt self other =
     (case (payload self, operand other) of
        (Number a, Some (Number b)) \<Rightarrow> bool_result self (py_less a b)
      | _ \<Rightarrow> illegal_operation self)"

text \<open>
  Modelled from the spec: the comparison LTE of two Numbers (section 4.A).
\<close>

definition get_comparison_lte :: "rvalue \<Rightarrow> rvalue option \<Rightarrow> rvalue option \<times> error option" where
  "get_comparison_lte self other =
     (case (payload self, operand other) of
        (Number a, Some (Number b)) \<Rightarrow> bool_result self (py_le a b)
      | _ \<Rightarrow> illegal_operation self)"

text \<open>
  Modelled from the spec: the comparison GT of two Numbers (section 4.A).
\<close>

definition get_comparison_gt :: "rvalue \<Rightarrow> rvalue option \<Rightarrow> rvalue option \<times> error option" where
  "get_comparison_gt self other =
     (case (payload self, operand other) of
        (Number a, Some (Number b)) \<Rightarrow> bool_result self (py_less b a)
      | _ \<Rightarrow> illegal_operation self)"

text \<open>
  Modelled from the spec: the comparison GTE of two Numbers (section 4.A).
\<close>

definition get_comparison_gte :: "rvalue \<Rightarrow> rvalue option \<Rightarrow> rvalue option \<times> error option" where
  "get_comparison_gte self other =
     (case (payload self, operand other) of
        (Number a, Some (Number b)) \<Rightarrow> bool_result self (py_le b a)
      | _ \<Rightarrow> illegal_operation self)"

text \<open>
  Modelled from the spec: logical AND of two Numbers: the truth value of both sides
  combined (section 4.A).
\<close>

definition anded_by :: "rvalue \<Rightarrow> rvalue option \<Rightarrow> rvalue option \<times> error option" where
  "anded_by self other =
     (case (payload self, operand other) of
        (Number a, Some (Number b)) \<Rightarrow> bool_result self (\<not> is_zero a \<and> \<not> is_zero b)
      | _ \<Rightarrow> illegal_operation self)"

text \<open>
  Modelled from the spec: logical OR of two Numbers: the truth value of both sides
  combined (section 4.A).
\<close>

definition ored_by :: "rvalue \<Rightarrow> rvalue option \<Rightarrow> rvalue option \<times> error option" where
  "ored_by self other =
     (case (payload self, operand other) of
        (Number a, Some (Number b)) \<Rightarrow> bool_result self (\<not> is_zero a \<or> \<not> is_zero b)
      | _ \<Rightarrow> illegal_operation self)"

text \<open>
  Modelled from the spec: logical NOT of a Number: 1 if it is 0, else 0 (section 4.A).
\<close>

definition notted :: "rvalue \<Rightarrow> rvalue option \<times> error option" where
  "notted self =
     (case payload self of
        Number a \<Rightarrow> bool_result self (is_zero a)
      | _ \<Rightarrow> illegal_operation self)"

text \<open>
  Modelled from the spec: a Number is true when it is not 0, a String and a List when they
  are not empty, a function always (section 4.A and the glossary).
\<close>

definition is_true :: "rvalue \<Rightarrow> bool" where
  "is_true self =
     (case payload self of
        Number a \<Rightarrow> \<not> is_zero a
      | String s \<Rightarrow> s \<noteq> []
      | List xs \<Rightarrow> xs \<noteq> []
      | Function _ _ _ _ \<Rightarrow> True)"

text \<open>
  Modelled from the spec: the copy of a Number, a String or a List has the same payload and
  fresh position and context slots (section 4.A). The copy of a function is
  \<^verbatim>\<open>Function.copy\<close> of interpreter.py, which keeps the context and the position.
\<close>

definition copy :: "rvalue \<Rightarrow> rvalue" where
  "copy self =
     (case payload self of
        Function nm body args auto \<Rightarrow>
          set_position (set_context (new_Function nm body args auto) (val_context self))
            (start_pos self) (end_pos self)
      | p \<Rightarrow> Value p None None None)"

section \<open>The interpreter (interpreter.py)\<close>

text \<open>
  A visit either raises a Python exception or returns a control-flow result, and leaves
  a store behind in both cases. \<open>None\<close> is a visit that does not return.
\<close>

datatype outcome = Raised py_exception | Returned runtime_result

type_synonym result = "(outcome \<times> heap) option"

type_synonym visitor = "node \<Rightarrow> py_context \<Rightarrow> heap \<Rightarrow> result"

text \<open>Sequencing: an exception of the first visit, or its not returning, ends the method.\<close>

definition then_visit :: "result \<Rightarrow> (runtime_result \<Rightarrow> heap \<Rightarrow> result) \<Rightarrow> result" where
  "then_visit m f =
     (case m of
        None \<Rightarrow> None
      | Some (Raised x, h) \<Rightarrow> Some (Raised x, h)
      | Some (Returned res, h) \<Rightarrow> f res h)"

text \<open>
  Each method takes \<^verbatim>\<open>self.visit\<close> as its first argument; the recursion is closed in
  \<open>visit\<close> below.
\<close>

definition visit_numbernode :: "pynum \<Rightarrow> position \<Rightarrow> position \<Rightarrow> py_context \<Rightarrow> heap \<Rightarrow> result" where
  "visit_numbernode v sp ep context h =
     Some (Returned (success RuntimeResult
             (Some (set_position (set_context (new_Number v) (Some context)) (Some sp) (Some ep)))), h)"

definition visit_stringnode :: "string \<Rightarrow> position \<Rightarrow> position \<Rightarrow> py_context \<Rightarrow> heap \<Rightarrow> result" where
  "visit_stringnode v sp ep context h =
     Some (Returned (success RuntimeResult
             (Some (set_position (set_context (new_String v) (Some context)) (Some sp) (Some ep)))), h)"

text \<open>
  The chain of \<^verbatim>\<open>elif\<close> of \<^verbatim>\<open>visit_binopnode\<close>; when no branch matches, result and
  error both stay \<^verbatim>\<open>None\<close>.
\<close>

definition binop_dispatch :: "token \<Rightarrow> rvalue \<Rightarrow> rvalue option \<Rightarrow> rvalue option \<times> error option" where
  "binop_dispatch op_token left right =
     (if tok_type op_token = TP_PLUS then add_to left right
      else if tok_type op_token = TP_MINUS then subtract_by left right
      else if tok_type op_token = TP_POWER then power_by left right
      else if tok_type op_token = TP_MUL then multiply_by left right
      else if tok_type op_token = TP_DIV then divide_by left right False
      else if tok_type op_token = TP_MODULO then modulo_by left right
      else if tok_type op_token = TP_CLEAN_DIV then divide_by left right True
      else if tok_type op_token = TP_NE then get_comparison_ne left right
      else if tok_type op_token = TP_EE then get_comparison_ee left right
      else if tok_type op_token = TP_LT then get_comparison_lt left right
      else if tok_type op_token = TP_LTE then get_comparison_lte left right
      else if tok_type op_token = TP_GT then get_comparison_gt left right
      else if tok_type op_token = TP_GTE then get_comparison_gte left right
      else if matches op_token TP_KEYWORD ''AND'' then anded_by left right
      else if matches op_token TP_KEYWORD ''OR'' then ored_by left right
      else (None, None))"

text \<open>
  The end of \<^verbatim>\<open>visit_binopnode\<close> and \<^verbatim>\<open>visit_unaryopnode\<close>: fail with the error of
  the operation, or succeed with its result at the span of the node. Setting the position
  of a result that is \<^verbatim>\<open>None\<close> raises.
\<close>

definition finish_operation ::
  "runtime_result \<Rightarrow> rvalue option \<times> error option \<Rightarrow> position \<Rightarrow> position \<Rightarrow> outcome" where
  "finish_operation rr res sp ep =
     (case snd res of
        Some e \<Rightarrow> Returned (failure rr e)
      | None \<Rightarrow>
          (case fst res of
             None \<Rightarrow> Raised AttributeError
           | Some r \<Rightarrow> Returned (success rr (Some (set_position r (Some sp) (Some ep))))))"

text \<open>
  Both operands are visited before the first test of \<^verbatim>\<open>should_return\<close>. The second test
  of the source (line 93) repeats the first on an unchanged result, so it never holds
  there. Calling a method of a left operand that is \<^verbatim>\<open>None\<close> raises.
\<close>

definition visit_binopnode ::
  "visitor \<Rightarrow> node \<Rightarrow> token \<Rightarrow> node \<Rightarrow> position \<Rightarrow> position \<Rightarrow> py_context \<Rightarrow> heap \<Rightarrow> result" where
  "visit_binopnode visit left_node op_token right_node sp ep context h =
     then_visit (visit left_node context h) (\<lambda>res1 h1.
       let (left, rr1) = register RuntimeResult res1 in
       then_visit (visit right_node context h1) (\<lambda>res2 h2.
         let (right, rr2) = register rr1 res2 in
         if should_return rr2 then Some (Returned rr2, h2)
         else (case left of
                 None \<Rightarrow> Some (Raised AttributeError, h2)
               | Some l \<Rightarrow> Some (finish_operation rr2 (binop_dispatch op_token l right) sp ep, h2))))"

definition visit_unaryopnode ::
  "visitor \<Rightarrow> token \<Rightarrow> node \<Rightarrow> position \<Rightarrow> position \<Rightarrow> py_context \<Rightarrow> heap \<Rightarrow> result" where
  "visit_unaryopnode visit op_token right_node sp ep context h =
     then_visit (visit right_node context h) (\<lambda>res h1.
       let (number, rr) = register RuntimeResult res in
       if should_return rr then Some (Returned rr, h1)
       else (case number of
               None \<Rightarrow> Some (Raised AttributeError, h1)
             | Some n \<Rightarrow>
                 Some (finish_operation rr
                         (if tok_type op_token = TP_MINUS then multiply_by n (Some (new_Number (PyInt (- 1))))
                          else if matches op_token TP_KEYWORD ''NOT'' then notted n
                          else (Some n, None))
                         sp ep, h1)))"

text \<open>
  The failure for a missing name is stored in the result but not returned: the method
  goes on to copy the value, which is \<^verbatim>\<open>None\<close>.
\<close>

definition visit_varaccessnode :: "string \<Rightarrow> position \<Rightarrow> position \<Rightarrow> py_context \<Rightarrow> heap \<Rightarrow> result" where
  "visit_varaccessnode var_name sp ep context h =
     (case get h (symbol_table context) var_name None of
        None \<Rightarrow> None
      | Some var_value \<Rightarrow>
          (let rr = RuntimeResult;
               rr = (if var_value = None
                     then failure rr (ActiveRuntimeError
                            (''VAR '' @ [CHR 0x22] @ var_name @ [CHR 0x22] @ '' not defined'')
                            (Some sp) (Some ep) (Some context))
                     else rr)
           in case var_value of
                None \<Rightarrow> Some (Raised AttributeError, h)
              | Some v \<Rightarrow>
                  Some (Returned (success rr
                          (Some (set_context (set_position (copy v) (Some sp) (Some ep)) (Some context)))), h)))"

definition visit_varassignnode ::
  "visitor \<Rightarrow> string \<Rightarrow> node \<Rightarrow> py_context \<Rightarrow> heap \<Rightarrow> result" where
  "visit_varassignnode visit var_name value_node context h =
     then_visit (visit value_node context h) (\<lambda>res h1.
       let (var_value, rr) = register RuntimeResult res in
       if should_return rr then Some (Returned rr, h1)
       else Some (Returned (success rr var_value),
                  set_sym h1 (symbol_table context) var_name var_value))"

text \<open>The body of a case or of the else clause of \<^verbatim>\<open>visit_ifnode\<close>.\<close>

definition visit_branch ::
  "visitor \<Rightarrow> node \<Rightarrow> bool \<Rightarrow> py_context \<Rightarrow> runtime_result \<Rightarrow> heap \<Rightarrow> result" where
  "visit_branch visit expr should_return_null context rr h =
     then_visit (visit expr context h) (\<lambda>res h1.
       let (expr_value, rr1) = register rr res in
       if should_return rr1 then Some (Returned rr1, h1)
       else Some (Returned (success rr1
                    (if should_return_null then Some (new_Number (PyInt 0)) else expr_value)), h1))"

fun visit_ifnode ::
  "visitor \<Rightarrow> (node \<times> node \<times> bool) list \<Rightarrow> (node \<times> bool) option \<Rightarrow> py_context
   \<Rightarrow> runtime_result \<Rightarrow> heap \<Rightarrow> result" where
  "visit_ifnode visit [] else_case context rr h =
     (case else_case of
        Some (expr, should_return_null) \<Rightarrow> visit_branch visit expr should_return_null context rr h
      | None \<Rightarrow> Some (Returned (success rr (Some (new_Number (PyInt 0)))), h))"
| "visit_ifnode visit ((condition, expr, should_return_null) # cases) else_case context rr h =
     (case visit condition context h of
        None \<Rightarrow> None
      | Some (Raised x, h1) \<Rightarrow> Some (Raised x, h1)
      | Some (Returned res, h1) \<Rightarrow>
          (let (condition_value, rr1) = register rr res in
           if should_return rr1 then Some (Returned rr1, h1)
           else (case condition_value of
                   None \<Rightarrow> Some (Raised AttributeError, h1)
                 | Some c \<Rightarrow>
                     if is_true c then visit_branch visit expr should_return_null context rr1 h1
                     else visit_ifnode visit cases else_case context rr1 h1)))"

text \<open>The value of a finished loop.\<close>

definition loop_value ::
  "bool \<Rightarrow> rvalue option list \<Rightarrow> position \<Rightarrow> position \<Rightarrow> py_context \<Rightarrow> rvalue option" where
  "loop_value should_return_null elements sp ep context =
     Some (if should_return_null then new_Number (PyInt 0)
           else set_position (set_context (new_List elements) (Some context)) (Some sp) (Some ep))"

text \<open>
  The condition of the loop (the lambda of lines 205 to 208 of the source), chosen by the
  sign of the step.
\<close>

definition loop_condition :: "pynum \<Rightarrow> pynum \<Rightarrow> pynum \<Rightarrow> bool" where
  "loop_condition step_v end_v index =
     (if py_le (PyInt 0) step_v then py_less index end_v else py_less end_v index)"

text \<open>
  The \<^verbatim>\<open>while\<close> loop of \<^verbatim>\<open>visit_fornode\<close> with the return that follows it. The
  index is a local variable of the method: the loop variable is bound to it, then the step
  is added to it with Python's \<^verbatim>\<open>+\<close>, then the body is visited.
\<close>

partial_function (option) for_loop ::
  "visitor \<Rightarrow> string \<Rightarrow> node \<Rightarrow> bool \<Rightarrow> position \<Rightarrow> position \<Rightarrow> py_context \<Rightarrow> pynum \<Rightarrow> pynum
   \<Rightarrow> pynum \<Rightarrow> runtime_result \<Rightarrow> rvalue option list \<Rightarrow> heap \<Rightarrow> (outcome \<times> heap) option" where
  "for_loop visit var_name body should_return_null sp ep context end_v step_v index rr elements h =
     (if loop_condition step_v end_v index
      then (case py_add index step_v of
              Inl x \<Rightarrow>
                Some (Raised x, set_sym h (symbol_table context) var_name (Some (new_Number index)))
            | Inr next_index \<Rightarrow>
                (case visit body context
                        (set_sym h (symbol_table context) var_name (Some (new_Number index))) of
                   None \<Rightarrow> None
                 | Some (Raised x, h1) \<Rightarrow> Some (Raised x, h1)
                 | Some (Returned res, h1) \<Rightarrow>
                     (let (current_value, rr1) = register rr res in
                      if should_return rr1 \<and> \<not> loop_should_continue rr1
                         \<and> \<not> loop_should_break rr1
                      then Some (Returned rr1, h1)
                      else if loop_should_continue rr1
                      then for_loop visit var_name body should_return_null sp ep context end_v
                             step_v next_index rr1 elements h1
                      else if loop_should_break rr1
                      then Some (Returned (success rr1
                                   (loop_value should_return_null elements sp ep context)), h1)
                      else for_loop visit var_name body should_return_null sp ep context end_v
                             step_v next_index rr1 (elements @ [current_value]) h1)))
      else Some (Returned (success rr (loop_value should_return_null elements sp ep context)), h))"

text \<open>
  Modelled from the spec: the attribute \<^verbatim>\<open>value\<close> that the for-loop reads belongs to the
  class Number, which is not among the sources; the bounds and the step of a for-loop are
  numbers (section 4.E), and reading the attribute of anything else raises.
\<close>

definition value_attr :: "rvalue option \<Rightarrow> pynum option" where
  "value_attr v =
     (case v of
        Some (Value (Number x) _ _ _) \<Rightarrow> Some x
      | _ \<Rightarrow> None)"

text \<open>Lines 204 to 225 of \<^verbatim>\<open>visit_fornode\<close>: the index, the loop and the result.\<close>

definition for_run ::
  "visitor \<Rightarrow> string \<Rightarrow> node \<Rightarrow> bool \<Rightarrow> position \<Rightarrow> position \<Rightarrow> py_context \<Rightarrow> rvalue option
   \<Rightarrow> rvalue option \<Rightarrow> rvalue option \<Rightarrow> runtime_result \<Rightarrow> heap \<Rightarrow> result" where
  "for_run visit var_name body should_return_null sp ep context start_value end_value
     step_value rr h =
     (case (value_attr start_value, value_attr step_value, value_attr end_value) of
        (Some s, Some k, Some e) \<Rightarrow>
          for_loop visit var_name body should_return_null sp ep context e k s rr [] h
      | _ \<Rightarrow> Some (Raised AttributeError, h))"

definition visit_fornode ::
  "visitor \<Rightarrow> string \<Rightarrow> node \<Rightarrow> node \<Rightarrow> node option \<Rightarrow> node \<Rightarrow> bool \<Rightarrow> position \<Rightarrow> position
   \<Rightarrow> py_context \<Rightarrow> heap \<Rightarrow> result" where
  "visit_fornode visit var_name start_value_node end_value_node step_value_node body
     should_return_null sp ep context h =
     then_visit (visit start_value_node context h) (\<lambda>res1 h1.
       let (start_value, rr1) = register RuntimeResult res1 in
       if should_return rr1 then Some (Returned rr1, h1)
       else then_visit (visit end_value_node context h1) (\<lambda>res2 h2.
         let (end_value, rr2) = register rr1 res2 in
         if should_return rr2 then Some (Returned rr2, h2)
         else (case step_value_node of
                 Some step_node \<Rightarrow>
                   then_visit (visit step_node context h2) (\<lambda>res3 h3.
                     let (step_value, rr3) = register rr2 res3 in
                     if should_return rr3 then Some (Returned rr3, h3)
                     else for_run visit var_name body should_return_null sp ep context
                            start_value end_value step_value rr3 h3)
               | None \<Rightarrow>
                   for_run visit var_name body should_return_null sp ep context
                     start_value end_value (Some (new_Number (PyInt 1))) rr2 h2)))"

partial_function (option) while_loop ::
  "visitor \<Rightarrow> node \<Rightarrow> node \<Rightarrow> bool \<Rightarrow> position \<Rightarrow> position \<Rightarrow> py_context \<Rightarrow> runtime_result
   \<Rightarrow> rvalue option list \<Rightarrow> heap \<Rightarrow> (outcome \<times> heap) option" where
  "while_loop visit condition body should_return_null sp ep context rr elements h =
     (case visit condition context h of
        None \<Rightarrow> None
      | Some (Raised x, h1) \<Rightarrow> Some (Raised x, h1)
      | Some (Returned res, h1) \<Rightarrow>
          (let (condition_value, rr1) = register rr res in
           if should_return rr1 then Some (Returned rr1, h1)
           else (case condition_value of
                   None \<Rightarrow> Some (Raised AttributeError, h1)
                 | Some c \<Rightarrow>
                     if \<not> is_true c
                     then Some (Returned (success rr1
                                  (loop_value should_return_null elements sp ep context)), h1)
                     else (case visit body context h1 of
                             None \<Rightarrow> None
                           | Some (Raised x, h2) \<Rightarrow> Some (Raised x, h2)
                           | Some (Returned res2, h2) \<Rightarrow>
                               (let (current_value, rr2) = register rr1 res2 in
                                if should_return rr2 \<and> \<not> loop_should_continue rr2
                                   \<and> \<not> loop_should_break rr2
                                then Some (Returned rr2, h2)
                                else if loop_should_continue rr2
                                then while_loop visit condition body should_return_null sp ep
                                       context rr2 elements h2
                                else if loop_should_break rr2
                                then Some (Returned (success rr2
                                             (loop_value should_return_null elements sp ep context)), h2)
                                else while_loop visit condition body should_return_null sp ep
                                       context rr2 (elements @ [current_value]) h2)))))"

definition visit_whilenode ::
  "visitor \<Rightarrow> node \<Rightarrow> node \<Rightarrow> bool \<Rightarrow> position \<Rightarrow> position \<Rightarrow> py_context \<Rightarrow> heap \<Rightarrow> result" where
  "visit_whilenode visit condition body should_return_null sp ep context h =
     while_loop visit condition body should_return_null sp ep context RuntimeResult [] h"

definition visit_funcdefnode ::
  "string option \<Rightarrow> string list \<Rightarrow> node \<Rightarrow> bool \<Rightarrow> position \<Rightarrow> position \<Rightarrow> py_context \<Rightarrow> heap
   \<Rightarrow> result" where
  "visit_funcdefnode var_name_token arg_name_tokens body should_auto_ret sp ep context h =
     (let rr = RuntimeResult;
          func_name = var_name_token;
          func_node = set_position
                        (set_context (new_Function func_name body arg_name_tokens should_auto_ret)
                           (Some context))
                        (Some sp) (Some ep)
      in Some (Returned (success rr (Some func_node)),
               (case var_name_token of
                  Some nm \<Rightarrow> set_sym h (symbol_table context) nm (Some func_node)
                | None \<Rightarrow> h)))"

text \<open>
  The loop over the element nodes of \<^verbatim>\<open>visit_listnode\<close> and over the argument nodes of
  \<^verbatim>\<open>visit_callnode\<close>: \<open>Inl\<close> is the early return, \<open>Inr\<close> the result object and the values
  collected when the loop ends.
\<close>

fun visit_each ::
  "visitor \<Rightarrow> node list \<Rightarrow> py_context \<Rightarrow> runtime_result \<Rightarrow> rvalue option list \<Rightarrow> heap
   \<Rightarrow> ((outcome + runtime_result \<times> rvalue option list) \<times> heap) option" where
  "visit_each visit [] context rr xs h = Some (Inr (rr, xs), h)"
| "visit_each visit (n # ns) context rr xs h =
     (case visit n context h of
        None \<Rightarrow> None
      | Some (Raised x, h1) \<Rightarrow> Some (Inl (Raised x), h1)
      | Some (Returned res, h1) \<Rightarrow>
          (let (v, rr1) = register rr res in
           if should_return rr1 then Some (Inl (Returned rr1), h1)
           else visit_each visit ns context rr1 (xs @ [v]) h1))"

definition visit_listnode ::
  "visitor \<Rightarrow> node list \<Rightarrow> position \<Rightarrow> position \<Rightarrow> py_context \<Rightarrow> heap \<Rightarrow> result" where
  "visit_listnode visit element_nodes sp ep context h =
     (case visit_each visit element_nodes context RuntimeResult [] h of
        None \<Rightarrow> None
      | Some (Inl out, h1) \<Rightarrow> Some (out, h1)
      | Some (Inr (rr, elements), h1) \<Rightarrow>
          Some (Returned (success rr
                  (Some (set_position (set_context (new_List elements) (Some context))
                           (Some sp) (Some ep)))), h1))"

text \<open>
  Modelled from the spec: \<^verbatim>\<open>generate_new_context\<close> and \<^verbatim>\<open>check_and_populate_args\<close>
  belong to the class BaseFunction, which is not among the sources (section 4.F, steps 1
  to 4). The new context is named after the function, its parent is the context the
  function captured and its entry position the position of the function value; its
  fresh table has the table of the captured context as parent. Reading the table of a
  captured context that is \<^verbatim>\<open>None\<close> raises.
\<close>

definition generate_new_context :: "rvalue \<Rightarrow> heap \<Rightarrow> py_exception + py_context \<times> heap" where
  "generate_new_context self h =
     (case val_context self of
        None \<Rightarrow> Inl AttributeError
      | Some c \<Rightarrow>
          (let (st, h1) = SymbolTable (Some (symbol_table c)) h
           in Inr (Context (case name (payload self) of Some nm \<Rightarrow> nm | None \<Rightarrow> ''<anonymous>'')
                     (Some c) (start_pos self) st, h1)))"

text \<open>
  Modelled from the spec: each parameter name is bound to the argument of the same rank in the table of
  the new context (section 4.F, step 4).
\<close>

fun populate_args :: "string list \<Rightarrow> rvalue option list \<Rightarrow> py_context \<Rightarrow> heap \<Rightarrow> heap" where
  "populate_args (n # ns) (a # as) exec_ctx h =
     populate_args ns as exec_ctx (set_sym h (symbol_table exec_ctx) n a)"
| "populate_args _ _ exec_ctx h = h"

text \<open>
  Modelled from the spec: the number of arguments must be the number of parameters, else the call fails
  with "Too many / too few args passed" (section 4.F, step 1); then the arguments are bound.
\<close>

definition check_and_populate_args ::
  "rvalue \<Rightarrow> string list \<Rightarrow> rvalue option list \<Rightarrow> py_context \<Rightarrow> heap \<Rightarrow> runtime_result \<times> heap" where
  "check_and_populate_args self names args exec_ctx h =
     (if length args \<noteq> length names
      then (failure RuntimeResult
              (ActiveRuntimeError ''Too many / too few args passed'' (start_pos self) (end_pos self)
                 (val_context self)), h)
      else (success RuntimeResult None, populate_args names args exec_ctx h))"

text \<open>
  Python's \<^verbatim>\<open>a or b\<close> on objects: \<^verbatim>\<open>None\<close> is false, and an instance of a class is
  true unless the class says otherwise; the spec gives the values the method
  \<^verbatim>\<open>is_true\<close>, not a truth value of their own.
\<close>

definition py_or :: "rvalue option \<Rightarrow> rvalue option \<Rightarrow> rvalue option" where
  "py_or a b = (case a of Some v \<Rightarrow> Some v | None \<Rightarrow> b)"

text \<open>\<^verbatim>\<open>Function.execute\<close>; \<open>self\<close> is a function value.\<close>

definition Function_execute :: "visitor \<Rightarrow> rvalue \<Rightarrow> rvalue option list \<Rightarrow> heap \<Rightarrow> result" where
  "Function_execute visit self args h =
     (let rr = RuntimeResult in
      case generate_new_context self h of
        Inl x \<Rightarrow> Some (Raised x, h)
      | Inr (exec_context, h1) \<Rightarrow>
          (let (res0, h2) = check_and_populate_args self (arg_names (payload self)) args exec_context h1;
               (unused, rr0) = register rr res0
           in if should_return rr0 then Some (Returned rr0, h2)
              else then_visit (visit (body_node (payload self)) exec_context h2) (\<lambda>res h3.
                     let (v, rr1) = register rr0 res in
                     if should_return rr1 \<and> func_return_value rr1 = None then Some (Returned rr1, h3)
                     else Some (Returned (success rr1
                                  (py_or (py_or (if should_auto_return (payload self) then v else None)
                                            (func_return_value rr1))
                                     (Some (new_Number (PyInt 0))))), h3))))"

text \<open>
  Modelled from the spec: \<^verbatim>\<open>value_to_call.execute(args)\<close> on a value that is not a
  function fails with an illegal operation (section 4.A). On a function it is
  \<^verbatim>\<open>Function.execute\<close>.
\<close>

definition execute :: "visitor \<Rightarrow> rvalue \<Rightarrow> rvalue option list \<Rightarrow> heap \<Rightarrow> result" where
  "execute visit self args h =
     (case payload self of
        Function _ _ _ _ \<Rightarrow> Function_execute visit self args h
      | _ \<Rightarrow> Some (Returned (failure RuntimeResult
                     (ActiveRuntimeError ''Illegal operation'' (start_pos self) (end_pos self)
                        (val_context self))), h))"

definition visit_callnode ::
  "visitor \<Rightarrow> node \<Rightarrow> node list \<Rightarrow> position \<Rightarrow> position \<Rightarrow> py_context \<Rightarrow> heap \<Rightarrow> result" where
  "visit_callnode visit node_to_call arg_nodes sp ep context h =
     then_visit (visit node_to_call context h) (\<lambda>res h1.
       let (value_to_call, rr) = register RuntimeResult res in
       if should_return rr then Some (Returned rr, h1)
       else (case value_to_call of
               None \<Rightarrow> Some (Raised AttributeError, h1)
             | Some f \<Rightarrow>
                 (let callee = set_position (copy f) (Some sp) (Some ep) in
                  case visit_each visit arg_nodes context rr [] h1 of
                    None \<Rightarrow> None
                  | Some (Inl out, h2) \<Rightarrow> Some (out, h2)
                  | Some (Inr (rr1, args), h2) \<Rightarrow>
                      then_visit (execute visit callee args h2) (\<lambda>res2 h3.
                        let (return_value, rr2) = register rr1 res2 in
                        if should_return rr2 then Some (Returned rr2, h3)
                        else (case return_value of
                                None \<Rightarrow> Some (Raised AttributeError, h3)
                              | Some r \<Rightarrow>
                                  Some (Returned (success rr2
                                          (Some (set_context (set_position (copy r) (Some sp) (Some ep))
                                                   (Some context)))), h3))))))"

definition visit_returnnode :: "visitor \<Rightarrow> node option \<Rightarrow> py_context \<Rightarrow> heap \<Rightarrow> result" where
  "visit_returnnode visit node_to_return context h =
     (case node_to_return of
        Some n \<Rightarrow>
          then_visit (visit n context h) (\<lambda>res h1.
            let (v, rr) = register RuntimeResult res in
            if should_return rr then Some (Returned rr, h1)
            else Some (Returned (success_return rr v), h1))
      | None \<Rightarrow> Some (Returned (success_return RuntimeResult (Some (new_Number (PyInt 0)))), h))"

definition visit_continuenode :: "py_context \<Rightarrow> heap \<Rightarrow> result" where
  "visit_continuenode context h = Some (Returned (success_continue RuntimeResult), h)"

definition visit_breaknode :: "py_context \<Rightarrow> heap \<Rightarrow> result" where
  "visit_breaknode context h = Some (Returned (success_break RuntimeResult), h)"

text \<open>
  \<^verbatim>\<open>Interpreter.visit\<close> picks the method by the class of the node. The nodes are the
  fifteen classes that have a method, so \<^verbatim>\<open>no_visit_method\<close> is never picked.
\<close>

definition visit_node :: "visitor \<Rightarrow> node \<Rightarrow> py_context \<Rightarrow> heap \<Rightarrow> result" where
  "visit_node visit nd context h =
     (case nd of
        NumberNode v sp ep \<Rightarrow> visit_numbernode v sp ep context h
      | StringNode v sp ep \<Rightarrow> visit_stringnode v sp ep context h
      | ListNode element_nodes sp ep \<Rightarrow> visit_listnode visit element_nodes sp ep context h
      | BinOpNode l op_token r sp ep \<Rightarrow> visit_binopnode visit l op_token r sp ep context h
      | UnaryOpNode op_token r sp ep \<Rightarrow> visit_unaryopnode visit op_token r sp ep context h
      | VarAccessNode var_name sp ep \<Rightarrow> visit_varaccessnode var_name sp ep context h
      | VarAssignNode var_name value_node sp ep \<Rightarrow>
          visit_varassignnode visit var_name value_node context h
      | IfNode cases else_case sp ep \<Rightarrow> visit_ifnode visit cases else_case context RuntimeResult h
      | ForNode var_name s e k body srn sp ep \<Rightarrow>
          visit_fornode visit var_name s e k body srn sp ep context h
      | WhileNode condition body srn sp ep \<Rightarrow>
          visit_whilenode visit condition body srn sp ep context h
      | FuncDefNode var_name_token arg_name_tokens body auto sp ep \<Rightarrow>
          visit_funcdefnode var_name_token arg_name_tokens body auto sp ep context h
      | CallNode node_to_call arg_nodes sp ep \<Rightarrow>
          visit_callnode visit node_to_call arg_nodes sp ep context h
      | ReturnNode node_to_return sp ep \<Rightarrow> visit_returnnode visit node_to_return context h
      | ContinueNode sp ep \<Rightarrow> visit_continuenode context h
      | BreakNode sp ep \<Rightarrow> visit_breaknode context h)"

text \<open>
  The recursion of the interpreter, bounded by the depth of nested visits: \<open>visit n\<close>
  returns \<open>None\<close> when the evaluation nests deeper than \<open>n\<close> or a loop does not end.
\<close>

primrec visit :: "nat \<Rightarrow> visitor" where
  "visit 0 = (\<lambda>nd context h. None)"
| "visit (Suc n) = visit_node (visit n)"

section \<open>Notions used by the properties\<close>

text \<open>
  The state of a for-loop between two iterations: the index, the result object, the values
  collected and the store.
\<close>

type_synonym loop_state = "pynum \<times> runtime_result \<times> rvalue option list \<times> heap"

text \<open>
  One iteration after which the loop goes on: the loop variable is bound to the index, the
  step is added, and the body returns a value or a continue signal. \<open>None\<close>: the iteration
  ends the loop (by an exception, an error, a return or a break) or does not return.
\<close>

definition for_iteration ::
  "visitor \<Rightarrow> string \<Rightarrow> node \<Rightarrow> py_context \<Rightarrow> pynum \<Rightarrow> loop_state \<Rightarrow> loop_state option" where
  "for_iteration vis var_name body context step_v st =
     (case st of
        (index, rr, elements, h) \<Rightarrow>
          (case py_add index step_v of
             Inl x \<Rightarrow> None
           | Inr next_index \<Rightarrow>
               (case vis body context
                       (set_sym h (symbol_table context) var_name (Some (new_Number index))) of
                  Some (Returned res, h1) \<Rightarrow>
                    (let (current_value, rr1) = register rr res in
                     if should_return rr1 \<and> \<not> loop_should_continue rr1
                        \<and> \<not> loop_should_break rr1
                     then None
                     else if loop_should_continue rr1 then Some (next_index, rr1, elements, h1)
                     else if loop_should_break rr1 then None
                     else Some (next_index, rr1, elements @ [current_value], h1))
                | _ \<Rightarrow> None)))"

text \<open>
  \<open>n\<close> iterations in a row, each one begun because the condition of the loop held.
\<close>

fun for_iterations ::
  "visitor \<Rightarrow> string \<Rightarrow> node \<Rightarrow> py_context \<Rightarrow> pynum \<Rightarrow> pynum \<Rightarrow> nat \<Rightarrow> loop_state
   \<Rightarrow> loop_state option" where
  "for_iterations vis var_name body context end_v step_v 0 st = Some st"
| "for_iterations vis var_name body context end_v step_v (Suc n) st =
     (if loop_condition step_v end_v (fst st)
      then (case for_iteration vis var_name body context step_v st of
              Some st' \<Rightarrow> for_iterations vis var_name body context end_v step_v n st'
            | None \<Rightarrow> None)
      else None)"

text \<open>
  The loop runs to normal completion with \<open>n\<close> evaluations of its body, from the state
  \<open>st\<close> to the state \<open>st'\<close>: \<open>n\<close> iterations in a row, after which the condition fails.
\<close>

definition completes_after ::
  "visitor \<Rightarrow> string \<Rightarrow> node \<Rightarrow> py_context \<Rightarrow> pynum \<Rightarrow> pynum \<Rightarrow> nat \<Rightarrow> loop_state
   \<Rightarrow> loop_state \<Rightarrow> bool" where
  "completes_after vis var_name body context end_v step_v n st st' =
     (for_iterations vis var_name body context end_v step_v n st = Some st'
      \<and> \<not> loop_condition step_v end_v (fst st'))"


text \<open>
  The number of iterations of the specification, \<open>max(0, ceil((e - s) / k))\<close>, for an
  integer start \<open>s\<close>, an integer step \<open>k\<close> and an end \<open>e\<close>.
\<close>

definition iterations :: "int \<Rightarrow> real \<Rightarrow> int \<Rightarrow> nat" where
  "iterations s e k = nat (max 0 \<lceil>(e - of_int s) / of_int k\<rceil>)"

text \<open>The contexts from a context up to the top-level one, and the text of a frame.\<close>

fun context_chain :: "py_context \<Rightarrow> py_context list" where
  "context_chain (Context nm parent_ctx entry_pos st) =
     Context nm parent_ctx entry_pos st
     # (case parent_ctx of None \<Rightarrow> [] | Some c' \<Rightarrow> context_chain c')"

definition frame_text :: "position option \<times> py_context \<Rightarrow> string" where
  "frame_text f = (case fst f of Some p \<Rightarrow> frame_line p (snd f) | None \<Rightarrow> [])"

definition traceback_header :: string where
  "traceback_header = [CHR 0x0A] @ ''Traceback (most recent call last):'' @ [CHR 0x0A]"

section \<open>Example programs\<close>

definition pos0 :: position where
  "pos0 = \<lparr>idx = 0, ln = 0, col = 0, fn = ''<stdin>'', ftxt = []\<rparr>"

definition pos1 :: position where
  "pos1 = \<lparr>idx = 9, ln = 4, col = 2, fn = ''<stdin>'', ftxt = []\<rparr>"

text \<open>The top-level context and the store that holds its table alone.\<close>

definition program_context :: py_context where
  "program_context = Context ''<program>'' None None 0"

definition global_heap :: heap where
  "global_heap = snd (SymbolTable None [])"

text \<open>A value made at the top level, as a visit leaves it.\<close>

definition at_top :: "rvalue \<Rightarrow> rvalue" where
  "at_top v = set_position (set_context v (Some program_context)) (Some pos0) (Some pos0)"

text \<open>\<^verbatim>\<open>1 / 0\<close>, and \<^verbatim>\<open>(1 / 0) + (VAR x = 5)\<close>.\<close>

definition one_by_zero :: node where
  "one_by_zero = BinOpNode (NumberNode (PyInt 1) pos0 pos0) (Token TP_DIV None) (NumberNode (PyInt 0) pos0 pos0)
                   pos0 pos0"

definition assign_x :: node where
  "assign_x = VarAssignNode ''x'' (NumberNode (PyInt 5) pos0 pos0) pos0 pos0"

definition failing_sum :: node where
  "failing_sum = BinOpNode one_by_zero (Token TP_PLUS None) assign_x pos0 pos0"

text \<open>\<^verbatim>\<open>0 AND (VAR x = 5)\<close> and \<^verbatim>\<open>1 OR (VAR x = 5)\<close>.\<close>

definition zero_and_assign :: node where
  "zero_and_assign =
     BinOpNode (NumberNode (PyInt 0) pos0 pos0) (Token TP_KEYWORD (Some ''AND'')) assign_x pos0 pos0"

definition one_or_assign :: node where
  "one_or_assign =
     BinOpNode (NumberNode (PyInt 1) pos0 pos0) (Token TP_KEYWORD (Some ''OR'')) assign_x pos0 pos0"


definition for_continue :: node where
  "for_continue = ForNode ''i'' (NumberNode (PyInt 0) pos0 pos0) (NumberNode (PyInt 3) pos0 pos0) None
                    (ContinueNode pos0 pos0) False pos0 pos0"

definition float_loop :: node where
  "float_loop = ForNode ''i'' (NumberNode (PyFloat (Finite 9007199254740992)) pos0 pos0)
                  (NumberNode (PyFloat (Finite 9007199254740994)) pos0 pos0)
                  (Some (NumberNode (PyFloat (Finite 1)) pos0 pos0))
                  (NumberNode (PyInt 7) pos0 pos0) False pos0 pos0"

text \<open>
  \<^verbatim>\<open>5 / (IF 1 THEN 1 END)\<close>, the body of the \<^verbatim>\<open>IF\<close> on a line of its own, so that the
  case returns null.
\<close>

definition five_by_null :: node where
  "five_by_null =
     BinOpNode (NumberNode (PyInt 5) pos0 pos0) (Token TP_DIV None)
       (IfNode [(NumberNode (PyInt 1) pos0 pos0, NumberNode (PyInt 1) pos0 pos0, True)] None pos0 pos0)
       pos0 pos0"

text \<open>
  Function values defined at the top level and called at \<open>pos1\<close>: a function whose body is
  \<^verbatim>\<open>BREAK\<close>, one whose body is \<^verbatim>\<open>CONTINUE\<close>, one whose body is \<^verbatim>\<open>RETURN 7\<close> and one
  whose body is \<^verbatim>\<open>7\<close>, each without and with automatic return.
\<close>

definition function_value :: "node \<Rightarrow> bool \<Rightarrow> rvalue" where
  "function_value body auto =
     Value (Function (Some ''f'') body [] auto) (Some pos1) (Some pos1) (Some program_context)"

definition call_context :: py_context where
  "call_context = Context ''f'' (Some program_context) (Some pos1) 1"

definition call_heap :: heap where
  "call_heap = snd (SymbolTable (Some 0) global_heap)"

text \<open>A store of two tables: the top-level one binds \<^verbatim>\<open>a\<close>, its child binds nothing more.\<close>

definition two_scopes :: heap where
  "two_scopes = snd (SymbolTable (Some 0) (set_sym global_heap 0 ''a'' (Some (new_Number (PyInt 4)))))"

text \<open>
  Scenarios 3 and 4 of the specification: \<^verbatim>\<open>FOR i = 0 TO 3 THEN i * i\<close>, and the
  definition \<^verbatim>\<open>FUN add(a, b) -> a + b\<close> followed by the call \<^verbatim>\<open>add(4, 5)\<close>.
\<close>

definition for_squares :: node where
  "for_squares = ForNode ''i'' (NumberNode (PyInt 0) pos0 pos0) (NumberNode (PyInt 3) pos0 pos0) None
                   (BinOpNode (VarAccessNode ''i'' pos0 pos0) (Token TP_MUL None)
                      (VarAccessNode ''i'' pos0 pos0) pos0 pos0)
                   False pos0 pos0"

definition add_program :: node where
  "add_program = ListNode
     [FuncDefNode (Some ''add'') [''a'', ''b'']
        (BinOpNode (VarAccessNode ''a'' pos0 pos0) (Token TP_PLUS None)
           (VarAccessNode ''b'' pos0 pos0) pos0 pos0)
        True pos0 pos0,
      CallNode (VarAccessNode ''add'' pos1 pos1)
        [NumberNode (PyInt 4) pos1 pos1, NumberNode (PyInt 5) pos1 pos1] pos1 pos1]
     pos0 pos0"

section \<open>Symbol tables: lookup and update\<close>

lemma get_local:
  "symbols (h ! r) x = Some (Some v) \<Longrightarrow> get h r x d = Some (Some v)"
  by (subst get.simps) simp

lemma get_unshadowed:
  "unshadowed h x d s \<Longrightarrow> symbols (h ! s) x = Some (Some v) \<Longrightarrow> get h d x None = Some (Some v)"
proof (induction rule: unshadowed.induct)
  case (unshadowed_self h x s)
  then show ?case by (rule get_local)
next
  case (unshadowed_parent h d x p s)
  then show ?case by (subst get.simps) simp
qed

lemma get_terminates:
  "wf_heap h \<Longrightarrow> r < length h \<Longrightarrow> \<exists>y. get h r x d = Some y"
proof (induction r rule: less_induct)
  case (less r)
  show ?case
  proof (cases "parent (h ! r)")
    case None
    then show ?thesis by (subst get.simps) (simp split: option.splits)
  next
    case (Some p)
    with less.prems have "p < r" by (simp add: wf_heap_def)
    with less have "\<exists>y. get h p x d = Some y" by simp
    with Some show ?thesis by (subst get.simps) (auto split: option.splits)
  qed
qed

lemma get_absent:
  "wf_heap h \<Longrightarrow> r < length h \<Longrightarrow> \<forall>a. in_chain h r a \<longrightarrow> symbols (h ! a) x = None
   \<Longrightarrow> get h r x None = Some None"
proof (induction r rule: less_induct)
  case (less r)
  have loc: "symbols (h ! r) x = None" using less.prems(3) chain_self by blast
  show ?case
  proof (cases "parent (h ! r)")
    case None
    with loc show ?thesis by (subst get.simps) simp
  next
    case (Some p)
    with less.prems have "p < r" by (simp add: wf_heap_def)
    moreover have "\<forall>a. in_chain h p a \<longrightarrow> symbols (h ! a) x = None"
      using less.prems(3) Some chain_parent by blast
    ultimately have "get h p x None = Some None" using less by simp
    with Some loc show ?thesis by (subst get.simps) simp
  qed
qed

lemma in_chain_le: "in_chain h r a \<Longrightarrow> wf_heap h \<Longrightarrow> r < length h \<Longrightarrow> a \<le> r"
proof (induction rule: in_chain.induct)
  case (chain_self h r)
  then show ?case by simp
next
  case (chain_parent h r p a)
  then have "p < r" by (simp add: wf_heap_def)
  with chain_parent show ?case by simp
qed

lemma unshadowed_le: "unshadowed h x d s \<Longrightarrow> wf_heap h \<Longrightarrow> d < length h \<Longrightarrow> s \<le> d"
proof (induction rule: unshadowed.induct)
  case (unshadowed_self h x s)
  then show ?case by simp
next
  case (unshadowed_parent h d x p s)
  then have "p < d" by (simp add: wf_heap_def)
  with unshadowed_parent show ?case by simp
qed

lemma get_set_other:
  "wf_heap h \<Longrightarrow> r < d \<Longrightarrow> d < length h \<Longrightarrow> get (set_sym h d y w) r x dflt = get h r x dflt"
proof (induction r rule: less_induct)
  case (less r)
  have same: "set_sym h d y w ! r = h ! r" using less.prems by (simp add: set_sym_def)
  show ?case
  proof (cases "parent (h ! r)")
    case None
    show ?thesis
      by (subst get.simps, subst (2) get.simps) (simp add: same None Let_def split: option.splits)
  next
    case (Some p)
    with less.prems have "p < r" by (simp add: wf_heap_def)
    with less have "get (set_sym h d y w) p x dflt = get h p x dflt" by simp
    then show ?thesis
      by (subst get.simps, subst (2) get.simps) (simp add: same Some Let_def split: option.splits)
  qed
qed

lemma global_heap_eq:
  "global_heap = [\<lparr>symbols = [''NULL'' \<mapsto> Some (new_Number (PyInt 0)), ''TRUE'' \<mapsto> Some (new_Number (PyInt 1)),
                               ''FALSE'' \<mapsto> Some (new_Number (PyInt 0))], parent = None\<rparr>]"
  by (simp add: global_heap_def SymbolTable_def)

lemma two_scopes_eq:
  "two_scopes = [\<lparr>symbols = [''NULL'' \<mapsto> Some (new_Number (PyInt 0)), ''TRUE'' \<mapsto> Some (new_Number (PyInt 1)),
                               ''FALSE'' \<mapsto> Some (new_Number (PyInt 0)), ''a'' \<mapsto> Some (new_Number (PyInt 4))],
                   parent = None\<rparr>,
                 \<lparr>symbols = [''NULL'' \<mapsto> Some (new_Number (PyInt 0)), ''TRUE'' \<mapsto> Some (new_Number (PyInt 1)),
                               ''FALSE'' \<mapsto> Some (new_Number (PyInt 0))], parent = Some 0\<rparr>]"
  by (simp add: two_scopes_def global_heap_eq SymbolTable_def set_sym_def)

lemma wf_global_heap: "wf_heap global_heap"
  by (simp add: wf_heap_def global_heap_eq)

lemma wf_two_scopes: "wf_heap two_scopes"
  by (auto simp: wf_heap_def two_scopes_eq less_Suc_eq numeral_2_eq_2)

lemma in_chain_global: "in_chain global_heap 0 a \<Longrightarrow> a = 0"
  using in_chain_le [OF _ wf_global_heap] by (fastforce simp: global_heap_eq)

lemma in_chain_two_scopes: "in_chain two_scopes 1 a \<Longrightarrow> a = 0 \<or> a = 1"
  using in_chain_le [OF _ wf_two_scopes, of 1 a] by (auto simp: two_scopes_eq)

text \<open>
  Claim C5, as the code has it. On a store whose parent links lead to smaller addresses,
  \<^verbatim>\<open>get\<close> always returns, and it returns \<^verbatim>\<open>None\<close> for a name that no table of the
  chain has; \<^verbatim>\<open>set\<close> always succeeds and writes the table it is called on and no other.
  \<^verbatim>\<open>remove\<close> deletes the name from the table it is called on when the name is there, and
  raises \<^verbatim>\<open>KeyError\<close> when it is not.
\<close>
theorem symbol_table_operations:
  assumes "wf_heap h" and "self < length h"
  shows "(\<exists>y. get h self x None = Some y)
     \<and> ((\<forall>a. in_chain h self a \<longrightarrow> symbols (h ! a) x = None) \<longrightarrow> get h self x None = Some None)
     \<and> symbols (set_sym h self x v ! self) x = Some v
     \<and> (\<forall>a. a \<noteq> self \<longrightarrow> set_sym h self x v ! a = h ! a)
     \<and> (symbols (h ! self) x \<noteq> None \<longrightarrow>
          (\<exists>h'. remove_sym h self x = Inr h' \<and> symbols (h' ! self) x = None
                \<and> (\<forall>a. a \<noteq> self \<longrightarrow> h' ! a = h ! a)))
     \<and> (symbols (h ! self) x = None \<longrightarrow> remove_sym h self x = Inl KeyError)"
proof -
  have "\<exists>y. get h self x None = Some y" using assms by (rule get_terminates)
  moreover have "(\<forall>a. in_chain h self a \<longrightarrow> symbols (h ! a) x = None) \<longrightarrow> get h self x None = Some None"
    using assms get_absent by blast
  moreover have "symbols (set_sym h self x v ! self) x = Some v"
    using assms(2) by (simp add: set_sym_def)
  moreover have "\<forall>a. a \<noteq> self \<longrightarrow> set_sym h self x v ! a = h ! a"
    by (simp add: set_sym_def)
  moreover have "symbols (h ! self) x \<noteq> None \<longrightarrow>
          (\<exists>h'. remove_sym h self x = Inr h' \<and> symbols (h' ! self) x = None
                \<and> (\<forall>a. a \<noteq> self \<longrightarrow> h' ! a = h ! a))"
    using assms(2) by (auto simp: remove_sym_def)
  moreover have "symbols (h ! self) x = None \<longrightarrow> remove_sym h self x = Inl KeyError"
    by (simp add: remove_sym_def)
  ultimately show ?thesis by blast
qed

text \<open>The statement of C5 at the child table of a store of two tables.\<close>

theorem symbol_table_operations_witness:
  "wf_heap two_scopes \<and> 1 < length two_scopes
   \<and> get two_scopes 1 ''b'' None = Some None
   \<and> remove_sym two_scopes 1 ''b'' = Inl KeyError
   \<and> (\<exists>h'. remove_sym two_scopes 1 ''TRUE'' = Inr h' \<and> symbols (h' ! 1) ''TRUE'' = None)"
proof -
  have len: "1 < length two_scopes" by (simp add: two_scopes_eq)
  have absent: "\<forall>a. in_chain two_scopes 1 a \<longrightarrow> symbols (two_scopes ! a) ''b'' = None"
  proof (intro allI impI)
    fix a assume "in_chain two_scopes 1 a"
    then have "a = 0 \<or> a = 1" by (rule in_chain_two_scopes)
    then show "symbols (two_scopes ! a) ''b'' = None" by (auto simp: two_scopes_eq)
  qed
  have local: "symbols (two_scopes ! 1) ''b'' = None" "symbols (two_scopes ! 1) ''TRUE'' \<noteq> None"
    by (simp_all add: two_scopes_eq)
  show ?thesis
    using symbol_table_operations [OF wf_two_scopes len, of "''b''"]
      symbol_table_operations [OF wf_two_scopes len, of "''TRUE''"] absent local wf_two_scopes len
    by blast
qed

text \<open>
  Claim C5 as stated fails: removing a name that the table does not have raises
  \<^verbatim>\<open>KeyError\<close>.
\<close>

theorem remove_absent_counterexample:
  "symbols (global_heap ! 0) ''x'' = None \<and> remove_sym global_heap 0 ''x'' = Inl KeyError"
  by (simp add: remove_sym_def global_heap_eq)

text \<open>
  Claim C8. A name that the table \<open>s\<close> binds to a value and that no table between the
  descendant \<open>d\<close> and \<open>s\<close> has is found by \<^verbatim>\<open>get\<close> from \<open>d\<close>. A \<^verbatim>\<open>set\<close> of the
  name on a proper descendant \<open>d\<close> changes the dictionary of \<open>d\<close> alone: every other table
  is unchanged, and \<open>s\<close> still binds the name to the same value and returns it.
\<close>
theorem lookup_from_descendant:
  assumes "wf_heap h" and "d < length h" and "unshadowed h x d s"
    and "symbols (h ! s) x = Some (Some v)"
  shows "get h d x None = Some (Some v)
     \<and> (d \<noteq> s \<longrightarrow>
          symbols (set_sym h d x w ! d) = (symbols (h ! d))(x \<mapsto> w)
          \<and> parent (set_sym h d x w ! d) = parent (h ! d)
          \<and> (\<forall>a. a \<noteq> d \<longrightarrow> set_sym h d x w ! a = h ! a)
          \<and> symbols (set_sym h d x w ! s) x = Some (Some v)
          \<and> get (set_sym h d x w) s x None = Some (Some v))"
proof -
  have g: "get h d x None = Some (Some v)" using assms(3,4) by (rule get_unshadowed)
  have "s \<le> d" using assms(3,1,2) by (rule unshadowed_le)
  have upd: "symbols (set_sym h d x w ! d) = (symbols (h ! d))(x \<mapsto> w)"
    "parent (set_sym h d x w ! d) = parent (h ! d)"
    using assms(2) by (simp_all add: set_sym_def)
  have other: "\<forall>a. a \<noteq> d \<longrightarrow> set_sym h d x w ! a = h ! a" by (simp add: set_sym_def)
  {
    assume "d \<noteq> s"
    with \<open>s \<le> d\<close> have "s < d" by simp
    then have "get (set_sym h d x w) s x None = get h s x None"
      using assms(1,2) by (simp add: get_set_other)
    moreover have "get h s x None = Some (Some v)" using assms(4) by (rule get_local)
    ultimately have "get (set_sym h d x w) s x None = Some (Some v)" by simp
    moreover have "symbols (set_sym h d x w ! s) x = Some (Some v)"
      using other \<open>d \<noteq> s\<close> assms(4) by simp
    ultimately have "symbols (set_sym h d x w ! s) x = Some (Some v)
          \<and> get (set_sym h d x w) s x None = Some (Some v)" by simp
  }
  with g upd other show ?thesis by blast
qed

text \<open>The statement of C8 at a store of two tables, the name bound at the top level.\<close>

theorem lookup_from_descendant_witness:
  "wf_heap two_scopes \<and> 1 < length two_scopes \<and> unshadowed two_scopes ''a'' 1 0
   \<and> symbols (two_scopes ! 0) ''a'' = Some (Some (new_Number (PyInt 4)))
   \<and> get two_scopes 1 ''a'' None = Some (Some (new_Number (PyInt 4)))
   \<and> symbols (set_sym two_scopes 1 ''a'' (Some (new_Number (PyInt 9))) ! 0) ''a'' = Some (Some (new_Number (PyInt 4)))
   \<and> get (set_sym two_scopes 1 ''a'' (Some (new_Number (PyInt 9)))) 0 ''a'' None = Some (Some (new_Number (PyInt 4)))"
proof -
  have len: "1 < length two_scopes" by (simp add: two_scopes_eq)
  have un: "unshadowed two_scopes ''a'' 1 0"
    by (rule unshadowed_parent [where p = 0]) (simp_all add: two_scopes_eq unshadowed_self)
  have bound: "symbols (two_scopes ! 0) ''a'' = Some (Some (new_Number (PyInt 4)))"
    by (simp add: two_scopes_eq)
  show ?thesis
    using lookup_from_descendant [OF wf_two_scopes len un bound, of "Some (new_Number (PyInt 9))"]
      wf_two_scopes len un bound
    by simp
qed

text \<open>
  Claim C10. A table just constructed binds \<^verbatim>\<open>NULL\<close>, \<^verbatim>\<open>TRUE\<close> and \<^verbatim>\<open>FALSE\<close> to
  the numbers 0, 1 and 0 in its own dictionary, whatever its parent; a lookup of these
  names from it returns these numbers, whatever the tables allocated before it hold, and
  also after any binding is written into one of those tables.
\<close>
theorem fresh_table_constants:
  "symbols (snd (SymbolTable p h) ! fst (SymbolTable p h)) ''NULL'' = Some (Some (new_Number (PyInt 0)))
   \<and> symbols (snd (SymbolTable p h) ! fst (SymbolTable p h)) ''TRUE'' = Some (Some (new_Number (PyInt 1)))
   \<and> symbols (snd (SymbolTable p h) ! fst (SymbolTable p h)) ''FALSE'' = Some (Some (new_Number (PyInt 0)))
   \<and> parent (snd (SymbolTable p h) ! fst (SymbolTable p h)) = p
   \<and> get (snd (SymbolTable p h)) (fst (SymbolTable p h)) ''NULL'' None = Some (Some (new_Number (PyInt 0)))
   \<and> get (snd (SymbolTable p h)) (fst (SymbolTable p h)) ''TRUE'' None = Some (Some (new_Number (PyInt 1)))
   \<and> get (snd (SymbolTable p h)) (fst (SymbolTable p h)) ''FALSE'' None = Some (Some (new_Number (PyInt 0)))
   \<and> (\<forall>a y w. a < length h \<longrightarrow>
        get (set_sym (snd (SymbolTable p h)) a y w) (fst (SymbolTable p h)) ''NULL'' None
          = Some (Some (new_Number (PyInt 0)))
        \<and> get (set_sym (snd (SymbolTable p h)) a y w) (fst (SymbolTable p h)) ''TRUE'' None
          = Some (Some (new_Number (PyInt 1)))
        \<and> get (set_sym (snd (SymbolTable p h)) a y w) (fst (SymbolTable p h)) ''FALSE'' None
          = Some (Some (new_Number (PyInt 0))))"
proof -
  have loc: "symbols (snd (SymbolTable p h) ! fst (SymbolTable p h)) ''NULL'' = Some (Some (new_Number (PyInt 0)))"
    "symbols (snd (SymbolTable p h) ! fst (SymbolTable p h)) ''TRUE'' = Some (Some (new_Number (PyInt 1)))"
    "symbols (snd (SymbolTable p h) ! fst (SymbolTable p h)) ''FALSE'' = Some (Some (new_Number (PyInt 0)))"
    "parent (snd (SymbolTable p h) ! fst (SymbolTable p h)) = p"
    by (simp_all add: SymbolTable_def)
  have other: "set_sym (snd (SymbolTable p h)) a y w ! fst (SymbolTable p h)
      = snd (SymbolTable p h) ! fst (SymbolTable p h)" if "a < length h" for a y w
    using that by (simp add: set_sym_def SymbolTable_def)
  show ?thesis using loc other by (simp add: get_local)
qed

text \<open>
  The statement of C10 at a child of the top-level table: after \<^verbatim>\<open>TRUE\<close> is bound to 5
  at the top level, the child still finds 1.
\<close>

theorem fresh_table_constants_witness:
  "0 < length global_heap
   \<and> get (set_sym (snd (SymbolTable (Some 0) global_heap)) 0 ''TRUE'' (Some (new_Number (PyInt 5))))
       (fst (SymbolTable (Some 0) global_heap)) ''TRUE'' None = Some (Some (new_Number (PyInt 1)))
   \<and> get (set_sym (snd (SymbolTable (Some 0) global_heap)) 0 ''TRUE'' (Some (new_Number (PyInt 5))))
       0 ''TRUE'' None = Some (Some (new_Number (PyInt 5)))"
proof -
  have len: "0 < length global_heap" by (simp add: global_heap_eq)
  have "get (set_sym (snd (SymbolTable (Some 0) global_heap)) 0 ''TRUE'' (Some (new_Number (PyInt 5))))
       0 ''TRUE'' None = Some (Some (new_Number (PyInt 5)))"
    by (rule get_local) (simp add: set_sym_def SymbolTable_def global_heap_eq)
  then show ?thesis
    using fresh_table_constants [of "Some 0" global_heap] len by blast
qed
section \<open>Variable access\<close>

text \<open>
  Claim C1 fails on the code. For a name that no table of the chain of the context has,
  \<^verbatim>\<open>visit_varaccessnode\<close> does not return the failure it has just built: it goes on and
  raises \<^verbatim>\<open>AttributeError\<close>.
\<close>
theorem varaccess_unbound_raises:
  assumes "wf_heap h" and "symbol_table context < length h"
    and "\<forall>a. in_chain h (symbol_table context) a \<longrightarrow> symbols (h ! a) var_name = None"
  shows "visit_varaccessnode var_name sp ep context h = Some (Raised AttributeError, h)
     \<and> visit (Suc n) (VarAccessNode var_name sp ep) context h = Some (Raised AttributeError, h)"
proof -
  have "get h (symbol_table context) var_name None = Some None"
    using assms by (rule get_absent)
  then show ?thesis by (simp add: visit_node_def visit_varaccessnode_def)
qed

text \<open>The statement of C1 for the name \<^verbatim>\<open>x\<close> at the top level.\<close>

theorem varaccess_unbound_raises_witness:
  "wf_heap global_heap \<and> symbol_table program_context < length global_heap
   \<and> get global_heap (symbol_table program_context) ''x'' None = Some None
   \<and> visit (Suc 0) (VarAccessNode ''x'' pos0 pos0) program_context global_heap
       = Some (Raised AttributeError, global_heap)"
proof -
  have len: "symbol_table program_context < length global_heap"
    by (simp add: program_context_def global_heap_eq)
  have absent: "\<forall>a. in_chain global_heap (symbol_table program_context) a
                  \<longrightarrow> symbols (global_heap ! a) ''x'' = None"
  proof (intro allI impI)
    fix a assume "in_chain global_heap (symbol_table program_context) a"
    then have "a = 0" using in_chain_global by (simp add: program_context_def)
    then show "symbols (global_heap ! a) ''x'' = None" by (simp add: global_heap_eq)
  qed
  show ?thesis
    using varaccess_unbound_raises [OF wf_global_heap len absent, of pos0 pos0 0]
      get_absent [OF wf_global_heap len absent] wf_global_heap len
    by blast
qed
section \<open>For-loops\<close>

lemma register_normal:
  "register rr (success RuntimeResult v)
     = (v, rr\<lparr>rr_error := None, func_return_value := None, loop_should_continue := False,
               loop_should_break := False\<rparr>)"
  by (simp add: register_def success_def RuntimeResult_def)

lemma success_any: "success rr v = success RuntimeResult v"
  by (simp add: success_def)

text \<open>The loop and the iterations: each iteration is one unfolding of the loop.\<close>

lemma for_loop_end:
  "\<not> loop_condition k e i
   \<Longrightarrow> for_loop vis var_name body srn sp ep ctx e k i rr els h
       = Some (Returned (success RuntimeResult (loop_value srn els sp ep ctx)), h)"
  by (subst for_loop.simps) (simp add: success_any [of rr])

lemma for_loop_step:
  assumes "loop_condition k e i"
    and "for_iteration vis var_name body ctx k (i, rr, els, h) = Some (j, rr', els', h')"
  shows "for_loop vis var_name body srn sp ep ctx e k i rr els h
       = for_loop vis var_name body srn sp ep ctx e k j rr' els' h'"
  using assms
  by (auto simp: for_loop.simps [of vis var_name body srn sp ep ctx e k i rr els h]
        for_iteration_def register_def
      split: sum.splits option.splits prod.splits outcome.splits if_splits)

lemma for_loop_run:
  "for_iterations vis var_name body ctx e k n (i, rr, els, h) = Some (j, rr', els', h')
   \<Longrightarrow> for_loop vis var_name body srn sp ep ctx e k i rr els h
       = for_loop vis var_name body srn sp ep ctx e k j rr' els' h'"
proof (induction n arbitrary: i rr els h)
  case 0
  then show ?case by simp
next
  case (Suc n)
  from Suc.prems have c: "loop_condition k e i"
    by (simp split: if_splits)
  from Suc.prems c obtain st where
    st: "for_iteration vis var_name body ctx k (i, rr, els, h) = Some st"
    and rest: "for_iterations vis var_name body ctx e k n st = Some (j, rr', els', h')"
    by (auto split: option.splits)
  obtain a ra ea ha where sta: "st = (a, ra, ea, ha)" by (cases st) auto
  have "for_loop vis var_name body srn sp ep ctx e k i rr els h
      = for_loop vis var_name body srn sp ep ctx e k a ra ea ha"
    using c st unfolding sta by (rule for_loop_step)
  also have "\<dots> = for_loop vis var_name body srn sp ep ctx e k j rr' els' h'"
    using rest unfolding sta by (rule Suc.IH)
  finally show ?case .
qed

lemma completes_result:
  assumes "completes_after vis var_name body ctx e k n (i, rr, els, h) (j, rr', els', h')"
  shows "for_loop vis var_name body srn sp ep ctx e k i rr els h
       = Some (Returned (success RuntimeResult (loop_value srn els' sp ep ctx)), h')"
proof -
  from assms have run: "for_iterations vis var_name body ctx e k n (i, rr, els, h)
      = Some (j, rr', els', h')" and stop: "\<not> loop_condition k e j"
    by (simp_all add: completes_after_def)
  show ?thesis
    using for_loop_run [OF run] for_loop_end [OF stop] by simp
qed

lemma iterations_snoc:
  "for_iterations vis var_name body ctx e k (Suc n) st
     = (case for_iterations vis var_name body ctx e k n st of
          None \<Rightarrow> None
        | Some st' \<Rightarrow>
            if loop_condition k e (fst st') then for_iteration vis var_name body ctx k st'
            else None)"
proof (induction n arbitrary: st)
  case 0
  then show ?case by (simp split: option.splits)
next
  case (Suc n)
  show ?case
  proof (cases "loop_condition k e (fst st)")
    case False
    then show ?thesis by simp
  next
    case True
    show ?thesis
    proof (cases "for_iteration vis var_name body ctx k st")
      case None
      then show ?thesis using True by simp
    next
      case (Some st1)
      have "for_iterations vis var_name body ctx e k (Suc (Suc n)) st
          = for_iterations vis var_name body ctx e k (Suc n) st1"
        using True Some by simp
      also have "\<dots> = (case for_iterations vis var_name body ctx e k n st1 of
          None \<Rightarrow> None
        | Some st' \<Rightarrow>
            if loop_condition k e (fst st') then for_iteration vis var_name body ctx k st'
            else None)"
        by (rule Suc.IH)
      also have "for_iterations vis var_name body ctx e k n st1
          = for_iterations vis var_name body ctx e k (Suc n) st"
        using True Some by simp
      finally show ?thesis .
    qed
  qed
qed





lemma completes_unique:
  "completes_after vis var_name body ctx e k n st a
   \<Longrightarrow> completes_after vis var_name body ctx e k m st b \<Longrightarrow> n = m"
proof (induction n arbitrary: m st)
  case 0
  then show ?case
    by (cases m) (auto simp: completes_after_def split: if_splits)
next
  case (Suc n)
  from Suc.prems(1) have c: "loop_condition k e (fst st)"
    by (simp add: completes_after_def split: if_splits)
  from Suc.prems(1) c obtain st1 where
    st: "for_iteration vis var_name body ctx k st = Some st1"
    and rest: "completes_after vis var_name body ctx e k n st1 a"
    by (auto simp: completes_after_def split: option.splits)
  show ?case
  proof (cases m)
    case 0
    then show ?thesis using Suc.prems(2) c by (simp add: completes_after_def)
  next
    case (Suc m')
    then have "completes_after vis var_name body ctx e k m' st1 b"
      using Suc.prems(2) c st by (simp add: completes_after_def)
    from Suc.IH [OF rest this] show ?thesis using Suc by simp
  qed
qed

text \<open>The condition of the loop and the number of iterations, for an integer index.\<close>

lemma int_condition:
  assumes "num_value e_v = Some e" and "k \<noteq> 0"
  shows "loop_condition (PyInt k) e_v (PyInt i) \<longleftrightarrow> 0 < (e - of_int i) / of_int k"
proof -
  have le: "py_le (PyInt 0) (PyInt k) \<longleftrightarrow> 0 \<le> k"
    by (auto simp: py_le_def float_le_def)
  have l: "py_less (PyInt i) e_v \<longleftrightarrow> of_int i < e"
    and g: "py_less e_v (PyInt i) \<longleftrightarrow> e < of_int i"
    using assms(1)
    by (auto simp: py_less_def num_value_def split: pynum.splits pyfloat.splits)
  show ?thesis
    using assms(2) by (auto simp: loop_condition_def le l g zero_less_divide_iff)
qed

lemma iterations_less:
  assumes "k \<noteq> 0"
  shows "j < iterations s e k \<longleftrightarrow> 0 < (e - of_int (s + int j * k)) / of_int k"
proof -
  have "(e - of_int (s + int j * k)) / of_int k = (e - of_int s) / of_int k - of_int (int j)"
    using assms by (simp add: field_simps)
  moreover have "j < nat (max 0 c) \<longleftrightarrow> int j < c" for c :: int
    by linarith
  then have "j < iterations s e k \<longleftrightarrow> int j < \<lceil>(e - of_int s) / of_int k\<rceil>"
    unfolding iterations_def .
  moreover have "int j < \<lceil>(e - of_int s) / of_int k\<rceil>
      \<longleftrightarrow> of_int (int j) < (e - of_int s) / of_int k"
    by (rule less_ceiling_iff)
  ultimately show ?thesis by simp
qed

lemma int_run:
  assumes e: "num_value e_v = Some e" and k: "k \<noteq> 0"
    and body: "\<And>j st. for_iterations vis var_name body ctx e_v (PyInt k) j (PyInt s, rr, [], h)
                   = Some st
        \<Longrightarrow> loop_condition (PyInt k) e_v (fst st)
        \<Longrightarrow> \<exists>res h'. vis body ctx (set_sym (snd (snd (snd st))) (symbol_table ctx) var_name
                                      (Some (new_Number (fst st))))
                       = Some (Returned res, h')
                     \<and> rr_error res = None \<and> func_return_value res = None
                     \<and> \<not> loop_should_break res"
  shows "j \<le> iterations s e k
     \<Longrightarrow> \<exists>rr' els' h'. for_iterations vis var_name body ctx e_v (PyInt k) j (PyInt s, rr, [], h)
                         = Some (PyInt (s + int j * k), rr', els', h')"
proof (induction j)
  case 0
  then show ?case by simp
next
  case (Suc j)
  then obtain rr' els' h' where
    run: "for_iterations vis var_name body ctx e_v (PyInt k) j (PyInt s, rr, [], h)
            = Some (PyInt (s + int j * k), rr', els', h')"
    by auto
  have "j < iterations s e k" using Suc.prems by simp
  then have c: "loop_condition (PyInt k) e_v (PyInt (s + int j * k))"
    using int_condition [OF e k] iterations_less [OF k] by simp
  from body [OF run] c obtain res h'' where
    b: "vis body ctx (set_sym h' (symbol_table ctx) var_name
                       (Some (new_Number (PyInt (s + int j * k)))))
          = Some (Returned res, h'')"
    and ok: "rr_error res = None" "func_return_value res = None" "\<not> loop_should_break res"
    by auto
  have "\<exists>rr'' els''. for_iteration vis var_name body ctx (PyInt k)
                       (PyInt (s + int j * k), rr', els', h')
                     = Some (PyInt (s + int j * k + k), rr'', els'', h'')"
    using b ok by (simp add: for_iteration_def register_def should_return_def)
  then obtain rr'' els'' where
    "for_iteration vis var_name body ctx (PyInt k) (PyInt (s + int j * k), rr', els', h')
       = Some (PyInt (s + int (Suc j) * k), rr'', els'', h'')"
    by (auto simp: algebra_simps)
  then show ?case
    using run c by (simp only: iterations_snoc) simp
qed

lemma visit_seven:
  "visit (Suc n) (NumberNode (PyInt 7) pos0 pos0) program_context h
     = Some (Returned (success RuntimeResult (Some (at_top (new_Number (PyInt 7))))), h)"
  by (simp add: visit_node_def visit_numbernode_def at_top_def)

lemma value_attr_number: "value_attr (Some (new_Number x)) = Some x"
  by (simp add: value_attr_def new_Number_def)

text \<open>
  Claim C7, as the code has it. Take a for-loop whose start and step are the Python
  \<^verbatim>\<open>int\<close>s \<open>s\<close> and \<open>k\<close>, with \<open>k\<close> not zero, whose end is a number of value \<open>e\<close>
  (an \<^verbatim>\<open>int\<close> or a finite \<^verbatim>\<open>float\<close>), and whose body completes normally at every
  evaluation that the loop performs: whenever the loop has run some iterations and its
  condition holds, the body returns a result that carries no error, no return and no break.
  Then the loop returns after exactly \<open>max(0, ceil((e - s) / k))\<close> evaluations of its
  body, whatever the sign of \<open>k\<close>: it completes after that many iterations, with the
  index at \<open>s + k * iterations\<close>, and it completes after no other number of iterations.
\<close>
theorem for_loop_iterations:
  assumes "value_attr start_value = Some (PyInt s)"
    and "value_attr end_value = Some e_v"
    and "value_attr step_value = Some (PyInt k)"
    and "num_value e_v = Some e" and "k \<noteq> 0"
    and "\<And>j st. for_iterations vis var_name body ctx e_v (PyInt k) j (PyInt s, rr, [], h)
                   = Some st
        \<Longrightarrow> loop_condition (PyInt k) e_v (fst st)
        \<Longrightarrow> \<exists>res h'. vis body ctx (set_sym (snd (snd (snd st))) (symbol_table ctx) var_name
                                      (Some (new_Number (fst st))))
                       = Some (Returned res, h')
                     \<and> rr_error res = None \<and> func_return_value res = None
                     \<and> \<not> loop_should_break res"
  shows "(\<exists>rr' els' h'.
            completes_after vis var_name body ctx e_v (PyInt k) (iterations s e k)
              (PyInt s, rr, [], h) (PyInt (s + int (iterations s e k) * k), rr', els', h')
            \<and> for_run vis var_name body srn sp ep ctx start_value end_value step_value rr h
                = Some (Returned (success RuntimeResult (loop_value srn els' sp ep ctx)), h'))
   \<and> (\<forall>m st. completes_after vis var_name body ctx e_v (PyInt k) m (PyInt s, rr, [], h) st
              \<longrightarrow> m = iterations s e k)"
proof -
  have "\<exists>rr' els' h'.
          for_iterations vis var_name body ctx e_v (PyInt k) (iterations s e k)
            (PyInt s, rr, [], h)
          = Some (PyInt (s + int (iterations s e k) * k), rr', els', h')"
  proof (rule int_run [where vis = vis and body = body and ctx = ctx and var_name = var_name
        and s = s and rr = rr and h = h and e = e and e_v = e_v and k = k])
    show "num_value e_v = Some e" by (rule assms(4))
    show "k \<noteq> 0" by (rule assms(5))
    show "iterations s e k \<le> iterations s e k" by simp
  next
    fix j st
    assume "for_iterations vis var_name body ctx e_v (PyInt k) j (PyInt s, rr, [], h) = Some st"
      and "loop_condition (PyInt k) e_v (fst st)"
    then show "\<exists>res h'. vis body ctx (set_sym (snd (snd (snd st))) (symbol_table ctx) var_name
                                      (Some (new_Number (fst st))))
                       = Some (Returned res, h')
                     \<and> rr_error res = None \<and> func_return_value res = None
                     \<and> \<not> loop_should_break res"
      by (rule assms(6))
  qed
  then obtain rr' els' h' where
    run: "for_iterations vis var_name body ctx e_v (PyInt k) (iterations s e k)
            (PyInt s, rr, [], h)
          = Some (PyInt (s + int (iterations s e k) * k), rr', els', h')"
    by blast
  have "\<not> loop_condition (PyInt k) e_v (PyInt (s + int (iterations s e k) * k))"
    using int_condition [OF assms(4) assms(5)]
      iterations_less [OF assms(5), of "iterations s e k" s e]
    by simp
  with run have fin: "completes_after vis var_name body ctx e_v (PyInt k) (iterations s e k)
      (PyInt s, rr, [], h) (PyInt (s + int (iterations s e k) * k), rr', els', h')"
    by (simp add: completes_after_def)
  have "for_run vis var_name body srn sp ep ctx start_value end_value step_value rr h
      = for_loop vis var_name body srn sp ep ctx e_v (PyInt k) (PyInt s) rr [] h"
    using assms(1-3) by (simp add: for_run_def)
  also have "\<dots> = Some (Returned (success RuntimeResult (loop_value srn els' sp ep ctx)), h')"
    using fin by (rule completes_result)
  finally have result:
    "for_run vis var_name body srn sp ep ctx start_value end_value step_value rr h
       = Some (Returned (success RuntimeResult (loop_value srn els' sp ep ctx)), h')" .
  have "m = iterations s e k"
    if "completes_after vis var_name body ctx e_v (PyInt k) m (PyInt s, rr, [], h) st"
    for m st
    using that fin by (rule completes_unique)
  with fin result show ?thesis by blast
qed

text \<open>
  The statement of C7 for \<^verbatim>\<open>FOR i = 0 TO 3 THEN 7\<close> at the top level: the loop returns
  after three evaluations of its body.
\<close>

theorem for_loop_iterations_witness:
  "(\<exists>rr' els' h'.
      completes_after (visit (Suc 0)) ''i'' (NumberNode (PyInt 7) pos0 pos0) program_context
        (PyInt 3) (PyInt 1) (iterations 0 3 1)
        (PyInt 0, RuntimeResult, [], global_heap)
        (PyInt (0 + int (iterations 0 3 1) * 1), rr', els', h')
      \<and> for_run (visit (Suc 0)) ''i'' (NumberNode (PyInt 7) pos0 pos0) False pos0 pos0
          program_context (Some (new_Number (PyInt 0))) (Some (new_Number (PyInt 3)))
          (Some (new_Number (PyInt 1))) RuntimeResult global_heap
          = Some (Returned (success RuntimeResult
                    (loop_value False els' pos0 pos0 program_context)), h'))
   \<and> iterations 0 3 1 = 3
   \<and> num_value (PyInt 3) = Some 3
   \<and> (\<forall>h. \<exists>res h'. visit (Suc 0) (NumberNode (PyInt 7) pos0 pos0) program_context h
                       = Some (Returned res, h')
                     \<and> rr_error res = None \<and> func_return_value res = None
                     \<and> \<not> loop_should_break res)"
proof -
  have n: "iterations 0 3 1 = 3" by (simp add: iterations_def)
  have e: "num_value (PyInt 3) = Some 3" by (simp add: num_value_def)
  have b: "\<exists>res h'. visit (Suc 0) (NumberNode (PyInt 7) pos0 pos0) program_context h
                       = Some (Returned res, h')
                     \<and> rr_error res = None \<and> func_return_value res = None
                     \<and> \<not> loop_should_break res" for h
    by (simp only: visit_seven) (simp add: success_def RuntimeResult_def)
  have k: "(1::int) \<noteq> 0" by simp
  have "\<exists>rr' els' h'.
      completes_after (visit (Suc 0)) ''i'' (NumberNode (PyInt 7) pos0 pos0) program_context
        (PyInt 3) (PyInt 1) (iterations 0 3 1)
        (PyInt 0, RuntimeResult, [], global_heap)
        (PyInt (0 + int (iterations 0 3 1) * 1), rr', els', h')
      \<and> for_run (visit (Suc 0)) ''i'' (NumberNode (PyInt 7) pos0 pos0) False pos0 pos0
          program_context (Some (new_Number (PyInt 0))) (Some (new_Number (PyInt 3)))
          (Some (new_Number (PyInt 1))) RuntimeResult global_heap
          = Some (Returned (success RuntimeResult
                    (loop_value False els' pos0 pos0 program_context)), h')"
    using for_loop_iterations [where vis = "visit (Suc 0)"
        and body = "NumberNode (PyInt 7) pos0 pos0" and ctx = program_context
        and var_name = "''i''" and h = global_heap and rr = RuntimeResult
        and k = 1 and s = 0 and e = 3 and e_v = "PyInt 3"
        and start_value = "Some (new_Number (PyInt 0))"
        and end_value = "Some (new_Number (PyInt 3))"
        and step_value = "Some (new_Number (PyInt 1))"
        and srn = False and sp = pos0 and ep = pos0,
        OF value_attr_number value_attr_number value_attr_number e k b]
    by (rule conjunct1)
  with n e b show ?thesis by (intro conjI allI)
qed

text \<open>
  Claim C7 as stated fails on floats. In
  \<^verbatim>\<open>FOR i = 9007199254740992.0 TO 9007199254740994.0 STEP 1.0 THEN 7\<close> the step is
  positive, the body always completes normally and \<open>max(0, ceil((e - s) / k))\<close> is 2, but
  the loop does not return: the sum of \<open>2 ^ 53\<close> and 1 rounds to \<open>2 ^ 53\<close>, so the index
  never moves and the condition holds for ever. The evaluation of the loop returns at no
  depth of nesting.
\<close>

lemma floor_log2_53: "\<lfloor>log 2 (9007199254740993::real)\<rfloor> = 53"
proof -
  have "(2::real) powr (of_int 53) \<le> 9007199254740993
      \<and> (9007199254740993::real) < 2 powr (of_int (53 + 1))"
    by (simp add: powr_numeral)
  then show ?thesis
    using floor_log_eq_powr_iff [of "9007199254740993::real" 2 53] by simp
qed

lemma round_stuck: "round_double (9007199254740992 + 1) = Finite 9007199254740992"
proof -
  have f: "\<lfloor>(9007199254740993::real) / 2\<rfloor> = 4503599627370496" by linarith
  have r: "round_half_even (9007199254740993 / 2) = 4503599627370496"
    unfolding round_half_even_def f by simp
  show ?thesis
    by (simp add: round_double_def floor_log2_53 r Let_def)
qed

lemma add_stuck:
  "py_add (PyFloat (Finite 9007199254740992)) (PyFloat (Finite 1))
     = Inr (PyFloat (Finite 9007199254740992))"
  using round_stuck by simp

lemma for_loop_stuck:
  assumes "for_loop vis var_name body srn sp ep ctx e k i rr els h = Some y"
  shows "\<not> (loop_condition k e i \<and> py_add i k = Inr i
            \<and> (\<forall>h. \<exists>v h'. vis body ctx h = Some (Returned (success RuntimeResult (Some v)), h')))"
proof (rule for_loop.raw_induct
    [where P = "\<lambda>vis var_name body srn sp ep ctx e k i rr els h y.
         \<not> (loop_condition k e i \<and> py_add i k = Inr i
            \<and> (\<forall>h. \<exists>v h'. vis body ctx h = Some (Returned (success RuntimeResult (Some v)), h')))",
     OF _ assms])
  fix loop vis var_name body srn sp ep ctx e k i rr els h y
  assume ih: "\<And>vis var_name body srn sp ep ctx e k i rr els h y.
      loop vis var_name body srn sp ep ctx e k i rr els h = Some y \<Longrightarrow>
      \<not> (loop_condition k e i \<and> py_add i k = Inr i
            \<and> (\<forall>h. \<exists>v h'. vis body ctx h = Some (Returned (success RuntimeResult (Some v)), h')))"
    and unfolded: "(if loop_condition k e i
      then (case py_add i k of
              Inl x \<Rightarrow>
                Some (Raised x, set_sym h (symbol_table ctx) var_name (Some (new_Number i)))
            | Inr next_index \<Rightarrow>
                (case vis body ctx
                        (set_sym h (symbol_table ctx) var_name (Some (new_Number i))) of
                   None \<Rightarrow> None
                 | Some (Raised x, h1) \<Rightarrow> Some (Raised x, h1)
                 | Some (Returned res, h1) \<Rightarrow>
                     (let (current_value, rr1) = register rr res in
                      if should_return rr1 \<and> \<not> loop_should_continue rr1
                         \<and> \<not> loop_should_break rr1
                      then Some (Returned rr1, h1)
                      else if loop_should_continue rr1
                      then loop vis var_name body srn sp ep ctx e
                             k next_index rr1 els h1
                      else if loop_should_break rr1
                      then Some (Returned (success rr1
                                   (loop_value srn els sp ep ctx)), h1)
                      else loop vis var_name body srn sp ep ctx e
                             k next_index rr1 (els @ [current_value]) h1)))
      else Some (Returned (success rr (loop_value srn els sp ep ctx)), h)) = Some y"
  show "\<not> (loop_condition k e i \<and> py_add i k = Inr i
            \<and> (\<forall>h. \<exists>v h'. vis body ctx h = Some (Returned (success RuntimeResult (Some v)), h')))"
  proof
    assume stuck: "loop_condition k e i \<and> py_add i k = Inr i
            \<and> (\<forall>h. \<exists>v h'. vis body ctx h = Some (Returned (success RuntimeResult (Some v)), h'))"
    then obtain v h' where
      b: "vis body ctx (set_sym h (symbol_table ctx) var_name (Some (new_Number i)))
            = Some (Returned (success RuntimeResult (Some v)), h')"
      by blast
    let ?rr = "rr\<lparr>rr_error := None, func_return_value := None, loop_should_continue := False,
               loop_should_break := False\<rparr>"
    have "loop vis var_name body srn sp ep ctx e k i ?rr (els @ [Some v]) h' = Some y"
      using unfolded stuck b by (simp add: register_normal should_return_def)
    from ih [OF this] stuck show False by blast
  qed
qed

lemma float_loop_stuck:
  "for_loop (visit (Suc n)) ''i'' (NumberNode (PyInt 7) pos0 pos0) srn sp ep program_context
     (PyFloat (Finite 9007199254740994)) (PyFloat (Finite 1)) (PyFloat (Finite 9007199254740992))
     rr els h = None"
proof -
  have c: "loop_condition (PyFloat (Finite 1)) (PyFloat (Finite 9007199254740994))
             (PyFloat (Finite 9007199254740992))"
    by (simp add: loop_condition_def py_le_def py_less_def float_le_def)
  have b: "\<forall>h. \<exists>v h'. visit (Suc n) (NumberNode (PyInt 7) pos0 pos0) program_context h
                        = Some (Returned (success RuntimeResult (Some v)), h')"
    by (simp only: visit_seven) blast
  show ?thesis
    using for_loop_stuck [where vis = "visit (Suc n)" and body = "NumberNode (PyInt 7) pos0 pos0"
        and ctx = program_context and k = "PyFloat (Finite 1)"
        and i = "PyFloat (Finite 9007199254740992)" and e = "PyFloat (Finite 9007199254740994)"
        and var_name = "''i''" and srn = srn and sp = sp and ep = ep and rr = rr and els = els
        and h = h]
      c add_stuck b
    by (cases "for_loop (visit (Suc n)) ''i'' (NumberNode (PyInt 7) pos0 pos0) srn sp ep
                 program_context (PyFloat (Finite 9007199254740994)) (PyFloat (Finite 1))
                 (PyFloat (Finite 9007199254740992)) rr els h") auto
qed

lemma visit_number:
  "visit (Suc n) (NumberNode v sp ep) ctx h = visit_numbernode v sp ep ctx h"
  by (simp add: visit_node_def)

lemma float_loop_diverges: "visit n float_loop program_context global_heap = None"
proof (cases n)
  case 0
  then show ?thesis by simp
next
  case (Suc m)
  then have v: "visit n float_loop program_context global_heap
      = visit_node (visit m) float_loop program_context global_heap"
    by simp
  show ?thesis
  proof (cases m)
    case 0
    then show ?thesis
      unfolding v by (simp add: float_loop_def visit_node_def visit_fornode_def then_visit_def)
  next
    case (Suc j)
    show ?thesis
      unfolding v Suc
      by (simp add: float_loop_def visit_node_def [of "visit (Suc j)"] visit_fornode_def
          then_visit_def visit_number visit_numbernode_def register_normal should_return_def
          for_run_def value_attr_def new_Number_def set_position_def set_context_def
          float_loop_stuck
          del: visit.simps)
  qed
qed

theorem for_loop_iterations_counterexample:
  "(\<forall>n. visit n float_loop program_context global_heap = None)
   \<and> (\<forall>h. visit (Suc 0) (NumberNode (PyInt 7) pos0 pos0) program_context h
            = Some (Returned (success RuntimeResult (Some (at_top (new_Number (PyInt 7))))), h))
   \<and> py_le (PyInt 0) (PyFloat (Finite 1))
   \<and> nat (max 0 \<lceil>((9007199254740994::real) - 9007199254740992) / 1\<rceil>) = 2"
  by (simp add: float_loop_diverges visit_seven py_le_def float_le_def del: visit.simps)






section \<open>Binary operations\<close>

lemmas evaluation =
  visit_node_def visit_numbernode_def visit_binopnode_def visit_varassignnode_def
  visit_returnnode_def visit_breaknode_def visit_continuenode_def then_visit_def register_def
  success_def failure_def success_return_def success_break_def success_continue_def
  RuntimeResult_def should_return_def binop_dispatch_def finish_operation_def matches_def
  add_to_def divide_by_def anded_by_def ored_by_def number_result_def bool_result_def
  operation_def is_zero_def num_value_def
  operand_error_def operand_def ActiveRuntimeError_def new_Number_def set_position_def
  set_context_def set_sym_def at_top_def program_context_def global_heap_eq

text \<open>
  Claim C3 fails on the code. In \<^verbatim>\<open>(1 / 0) + (VAR x = 5)\<close> the left operand yields the
  error of a division by zero. The right operand is visited all the same, so \<^verbatim>\<open>x\<close> is
  bound; registering its result wipes the error, and the addition is called on a left
  value that is \<^verbatim>\<open>None\<close>, which raises \<^verbatim>\<open>AttributeError\<close>.
\<close>
theorem binop_left_error_lost:
  "visit (Suc (Suc 0)) one_by_zero program_context global_heap
     = Some (Returned (failure RuntimeResult
               (ActiveRuntimeError ''Division by zero'' (Some pos0) (Some pos0)
                  (Some program_context))), global_heap)
   \<and> visit (Suc (Suc (Suc 0))) failing_sum program_context global_heap
     = Some (Raised AttributeError, set_sym global_heap 0 ''x'' (Some (at_top (new_Number (PyInt 5)))))"
  by (simp add: one_by_zero_def failing_sum_def assign_x_def evaluation)

lemma finish_operation_any: "finish_operation rr x sp ep = finish_operation RuntimeResult x sp ep"
  by (simp add: finish_operation_def success_def failure_def split: option.splits)

text \<open>
  Claim C4. For the operators \<^verbatim>\<open>AND\<close> and \<^verbatim>\<open>OR\<close>: when the left operand returns
  a result and leaves the store \<open>h1\<close>, and the right operand, visited in \<open>h1\<close>, returns a
  result and leaves the store \<open>h2\<close>, the node leaves the store \<open>h2\<close>, whatever the left
  result was; and when both results are values, the node returns what the logical operation
  gives on the two values.
\<close>
theorem logical_operators_visit_both:
  assumes "vis left_node ctx h = Some (Returned res1, h1)"
    and "vis right_node ctx h1 = Some (Returned res2, h2)"
  shows "map_option snd (visit_binopnode vis left_node (Token TP_KEYWORD (Some ''AND'')) right_node
                           sp ep ctx h) = Some h2
   \<and> map_option snd (visit_binopnode vis left_node (Token TP_KEYWORD (Some ''OR'')) right_node
                        sp ep ctx h) = Some h2
   \<and> (res1 = success RuntimeResult (Some l) \<and> res2 = success RuntimeResult (Some r) \<longrightarrow>
        visit_binopnode vis left_node (Token TP_KEYWORD (Some ''AND'')) right_node sp ep ctx h
          = Some (finish_operation RuntimeResult (anded_by l (Some r)) sp ep, h2)
        \<and> visit_binopnode vis left_node (Token TP_KEYWORD (Some ''OR'')) right_node sp ep ctx h
          = Some (finish_operation RuntimeResult (ored_by l (Some r)) sp ep, h2))"
proof -
  have store: "map_option snd (visit_binopnode vis left_node op_token right_node sp ep ctx h) = Some h2"
    for op_token
    using assms
    by (simp add: visit_binopnode_def then_visit_def register_def split: option.splits)
  have both: "visit_binopnode vis left_node op_token right_node sp ep ctx h
          = Some (finish_operation RuntimeResult (binop_dispatch op_token l (Some r)) sp ep, h2)"
    if "res1 = success RuntimeResult (Some l)" and "res2 = success RuntimeResult (Some r)"
    for op_token
    using assms that
    by (simp add: visit_binopnode_def then_visit_def register_def should_return_def
        RuntimeResult_def finish_operation_def success_def failure_def split: option.splits)
  have "binop_dispatch (Token TP_KEYWORD (Some ''AND'')) l (Some r) = anded_by l (Some r)"
    "binop_dispatch (Token TP_KEYWORD (Some ''OR'')) l (Some r) = ored_by l (Some r)"
    by (simp_all add: binop_dispatch_def matches_def)
  with store both show ?thesis by simp
qed

text \<open>
  The statement of C4 for \<^verbatim>\<open>0 AND (VAR x = 5)\<close> and \<^verbatim>\<open>1 OR (VAR x = 5)\<close>: the left
  operand decides the result, and \<^verbatim>\<open>x\<close> is bound all the same.
\<close>

theorem logical_operators_visit_both_witness:
  "visit (Suc (Suc (Suc 0))) zero_and_assign program_context global_heap
     = Some (Returned (success RuntimeResult (Some (at_top (new_Number (PyInt 0))))),
             set_sym global_heap 0 ''x'' (Some (at_top (new_Number (PyInt 5)))))
   \<and> visit (Suc (Suc (Suc 0))) one_or_assign program_context global_heap
     = Some (Returned (success RuntimeResult (Some (at_top (new_Number (PyInt 1))))),
             set_sym global_heap 0 ''x'' (Some (at_top (new_Number (PyInt 5)))))"
proof -
  have l: "visit (Suc (Suc 0)) (NumberNode (PyInt x) pos0 pos0) program_context global_heap
      = Some (Returned (success RuntimeResult (Some (at_top (new_Number (PyInt x))))), global_heap)" for x
    by (simp add: visit_node_def visit_numbernode_def at_top_def)
  have r: "visit (Suc (Suc 0)) assign_x program_context global_heap
      = Some (Returned (success RuntimeResult (Some (at_top (new_Number (PyInt 5))))),
              set_sym global_heap 0 ''x'' (Some (at_top (new_Number (PyInt 5)))))"
    by (simp add: assign_x_def evaluation)
  have e: "visit (Suc (Suc (Suc 0))) zero_and_assign program_context global_heap
      = visit_binopnode (visit (Suc (Suc 0))) (NumberNode (PyInt 0) pos0 pos0)
          (Token TP_KEYWORD (Some ''AND'')) assign_x pos0 pos0 program_context global_heap"
    "visit (Suc (Suc (Suc 0))) one_or_assign program_context global_heap
      = visit_binopnode (visit (Suc (Suc 0))) (NumberNode (PyInt 1) pos0 pos0)
          (Token TP_KEYWORD (Some ''OR'')) assign_x pos0 pos0 program_context global_heap"
    by (simp_all add: zero_and_assign_def one_or_assign_def visit_node_def)
  have v: "finish_operation RuntimeResult (anded_by (at_top (new_Number (PyInt 0))) (Some (at_top (new_Number (PyInt 5))))) pos0 pos0
      = Returned (success RuntimeResult (Some (at_top (new_Number (PyInt 0)))))"
    "finish_operation RuntimeResult (ored_by (at_top (new_Number (PyInt 1))) (Some (at_top (new_Number (PyInt 5))))) pos0 pos0
      = Returned (success RuntimeResult (Some (at_top (new_Number (PyInt 1)))))"
    by (simp_all add: finish_operation_def anded_by_def ored_by_def operand_def bool_result_def
        number_result_def is_zero_def num_value_def at_top_def new_Number_def set_position_def
        set_context_def)
  have a: "visit_binopnode (visit (Suc (Suc 0))) (NumberNode (PyInt 0) pos0 pos0)
          (Token TP_KEYWORD (Some ''AND'')) assign_x pos0 pos0 program_context global_heap
      = Some (finish_operation RuntimeResult
                (anded_by (at_top (new_Number (PyInt 0))) (Some (at_top (new_Number (PyInt 5))))) pos0 pos0,
              set_sym global_heap 0 ''x'' (Some (at_top (new_Number (PyInt 5)))))"
    using logical_operators_visit_both [where vis = "visit (Suc (Suc 0))"
          and l = "at_top (new_Number (PyInt 0))" and r = "at_top (new_Number (PyInt 5))" and sp = pos0 and ep = pos0,
          OF l [of 0] r]
    by blast
  have b: "visit_binopnode (visit (Suc (Suc 0))) (NumberNode (PyInt 1) pos0 pos0)
          (Token TP_KEYWORD (Some ''OR'')) assign_x pos0 pos0 program_context global_heap
      = Some (finish_operation RuntimeResult
                (ored_by (at_top (new_Number (PyInt 1))) (Some (at_top (new_Number (PyInt 5))))) pos0 pos0,
              set_sym global_heap 0 ''x'' (Some (at_top (new_Number (PyInt 5)))))"
    using logical_operators_visit_both [where vis = "visit (Suc (Suc 0))"
          and l = "at_top (new_Number (PyInt 1))" and r = "at_top (new_Number (PyInt 5))" and sp = pos0 and ep = pos0,
          OF l [of 1] r]
    by blast
  show ?thesis
    by (simp only: e a b v)
qed
section \<open>Function calls\<close>

lemma call_heap_eq:
  "call_heap = global_heap @ [\<lparr>symbols = [''NULL'' \<mapsto> Some (new_Number (PyInt 0)), ''TRUE'' \<mapsto> Some (new_Number (PyInt 1)),
                               ''FALSE'' \<mapsto> Some (new_Number (PyInt 0))], parent = Some 0\<rparr>]"
  by (simp add: call_heap_def SymbolTable_def)

lemma register_populated:
  "register RuntimeResult (success RuntimeResult None) = (None, RuntimeResult)"
  by (simp add: register_def success_def RuntimeResult_def)

lemma fresh_result_goes_on: "\<not> should_return RuntimeResult"
  by (simp add: should_return_def RuntimeResult_def)

text \<open>
  Claim C2, as the code has it. Take a call of a user function whose new context is made
  and whose arguments match its parameters in number. When the body returns through
  \<^verbatim>\<open>success_return\<close>, the call succeeds with the value carried, whatever the
  automatic-return flag. When the body returns a value normally, the call succeeds with that
  value if the flag is set and with the number 0 if it is not. When the body returns a
  break or a continue signal, the call returns that signal unchanged.
\<close>
theorem function_return_value:
  assumes "generate_new_context self h = Inr (exec_ctx, h_new)"
    and "length args = length (arg_names (payload self))"
    and "h_args = populate_args (arg_names (payload self)) args exec_ctx h_new"
  shows "(vis (body_node (payload self)) exec_ctx h_args
            = Some (Returned (success_return RuntimeResult (Some r)), h_body)
          \<longrightarrow> Function_execute vis self args h = Some (Returned (success RuntimeResult (Some r)), h_body))
     \<and> (vis (body_node (payload self)) exec_ctx h_args
            = Some (Returned (success RuntimeResult (Some v)), h_body)
          \<longrightarrow> Function_execute vis self args h
              = Some (Returned (success RuntimeResult
                        (Some (if should_auto_return (payload self) then v else new_Number (PyInt 0)))), h_body))
     \<and> (vis (body_node (payload self)) exec_ctx h_args
            = Some (Returned (success_break RuntimeResult), h_body)
          \<longrightarrow> Function_execute vis self args h = Some (Returned (success_break RuntimeResult), h_body))
     \<and> (vis (body_node (payload self)) exec_ctx h_args
            = Some (Returned (success_continue RuntimeResult), h_body)
          \<longrightarrow> Function_execute vis self args h = Some (Returned (success_continue RuntimeResult), h_body))"
proof -
  have start: "Function_execute vis self args h
      = then_visit (vis (body_node (payload self)) exec_ctx h_args) (\<lambda>res h_body.
          let (v, rr1) = register RuntimeResult res in
          if should_return rr1 \<and> func_return_value rr1 = None then Some (Returned rr1, h_body)
          else Some (Returned (success rr1
                       (py_or (py_or (if should_auto_return (payload self) then v else None)
                                 (func_return_value rr1))
                          (Some (new_Number (PyInt 0))))), h_body))"
    using assms
    by (simp add: Function_execute_def check_and_populate_args_def register_populated
        fresh_result_goes_on)
  show ?thesis
    unfolding start
    by (simp add: then_visit_def register_def should_return_def py_or_def success_def
        success_return_def success_break_def success_continue_def RuntimeResult_def)
qed

lemma new_context_example:
  "generate_new_context (function_value body auto) global_heap = Inr (call_context, call_heap)"
  by (simp add: generate_new_context_def function_value_def call_context_def call_heap_def
      SymbolTable_def program_context_def global_heap_eq)

lemma function_value_fields:
  "arg_names (payload (function_value body auto)) = []"
  "body_node (payload (function_value body auto)) = body"
  "should_auto_return (payload (function_value body auto)) = auto"
  by (simp_all add: function_value_def)

text \<open>
  The statement of C2 for functions without parameters, called at the top level, whose
  bodies are \<^verbatim>\<open>RETURN 7\<close>, \<^verbatim>\<open>7\<close>, \<^verbatim>\<open>BREAK\<close> and \<^verbatim>\<open>CONTINUE\<close>.
\<close>

theorem function_return_value_witness:
  "Function_execute (visit (Suc (Suc 0)))
     (function_value (ReturnNode (Some (NumberNode (PyInt 7) pos0 pos0)) pos0 pos0) False) [] global_heap
     = Some (Returned (success RuntimeResult
               (Some (set_position (set_context (new_Number (PyInt 7)) (Some call_context))
                        (Some pos0) (Some pos0)))), call_heap)
   \<and> Function_execute (visit (Suc (Suc 0))) (function_value (NumberNode (PyInt 7) pos0 pos0) True) []
       global_heap
     = Some (Returned (success RuntimeResult
               (Some (set_position (set_context (new_Number (PyInt 7)) (Some call_context))
                        (Some pos0) (Some pos0)))), call_heap)
   \<and> Function_execute (visit (Suc (Suc 0))) (function_value (NumberNode (PyInt 7) pos0 pos0) False) []
       global_heap
     = Some (Returned (success RuntimeResult (Some (new_Number (PyInt 0)))), call_heap)
   \<and> Function_execute (visit (Suc (Suc 0))) (function_value (BreakNode pos0 pos0) True) []
       global_heap
     = Some (Returned (success_break RuntimeResult), call_heap)
   \<and> Function_execute (visit (Suc (Suc 0))) (function_value (ContinueNode pos0 pos0) True) []
       global_heap
     = Some (Returned (success_continue RuntimeResult), call_heap)"
proof -
  let ?seven = "set_position (set_context (new_Number (PyInt 7)) (Some call_context)) (Some pos0) (Some pos0)"
  have ret: "visit (Suc (Suc 0)) (ReturnNode (Some (NumberNode (PyInt 7) pos0 pos0)) pos0 pos0) call_context h
      = Some (Returned (success_return RuntimeResult (Some ?seven)), h)" for h
    by (simp add: visit_node_def visit_returnnode_def visit_numbernode_def then_visit_def
        register_def should_return_def success_def success_return_def RuntimeResult_def)
  have num: "visit (Suc (Suc 0)) (NumberNode (PyInt 7) pos0 pos0) call_context h
      = Some (Returned (success RuntimeResult (Some ?seven)), h)" for h
    by (simp add: visit_node_def visit_numbernode_def)
  have brk: "visit (Suc (Suc 0)) (BreakNode pos0 pos0) call_context h
      = Some (Returned (success_break RuntimeResult), h)" for h
    by (simp add: visit_node_def visit_breaknode_def)
  have cont: "visit (Suc (Suc 0)) (ContinueNode pos0 pos0) call_context h
      = Some (Returned (success_continue RuntimeResult), h)" for h
    by (simp add: visit_node_def visit_continuenode_def)
  let ?ret = "ReturnNode (Some (NumberNode (PyInt 7) pos0 pos0)) pos0 pos0"
  have 1: "Function_execute (visit (Suc (Suc 0))) (function_value ?ret False) [] global_heap
     = Some (Returned (success RuntimeResult (Some ?seven)), call_heap)"
    using function_return_value [where vis = "visit (Suc (Suc 0))" and h_body = call_heap
        and self = "function_value (ReturnNode (Some (NumberNode (PyInt 7) pos0 pos0)) pos0 pos0) False" and args = "[]" and r = ?seven,
        OF new_context_example] ret
    by (simp add: function_value_fields)
  have 2: "Function_execute (visit (Suc (Suc 0))) (function_value (NumberNode (PyInt 7) pos0 pos0) True) []
       global_heap = Some (Returned (success RuntimeResult (Some ?seven)), call_heap)"
    using function_return_value [where vis = "visit (Suc (Suc 0))" and h_body = call_heap
        and self = "function_value (NumberNode (PyInt 7) pos0 pos0) True" and args = "[]" and v = ?seven,
        OF new_context_example] num
    by (simp add: function_value_fields)
  have 3: "Function_execute (visit (Suc (Suc 0))) (function_value (NumberNode (PyInt 7) pos0 pos0) False) []
       global_heap = Some (Returned (success RuntimeResult (Some (new_Number (PyInt 0)))), call_heap)"
    using function_return_value [where vis = "visit (Suc (Suc 0))" and h_body = call_heap
        and self = "function_value (NumberNode (PyInt 7) pos0 pos0) False" and args = "[]" and v = ?seven,
        OF new_context_example] num
    by (simp add: function_value_fields)
  have 4: "Function_execute (visit (Suc (Suc 0))) (function_value (BreakNode pos0 pos0) True) []
       global_heap = Some (Returned (success_break RuntimeResult), call_heap)"
    using function_return_value [where vis = "visit (Suc (Suc 0))" and h_body = call_heap
        and self = "function_value (BreakNode pos0 pos0) True" and args = "[]",
        OF new_context_example] brk
    by (simp add: function_value_fields)
  have 5: "Function_execute (visit (Suc (Suc 0))) (function_value (ContinueNode pos0 pos0) True) []
       global_heap = Some (Returned (success_continue RuntimeResult), call_heap)"
    using function_return_value [where vis = "visit (Suc (Suc 0))" and h_body = call_heap
        and self = "function_value (ContinueNode pos0 pos0) True" and args = "[]",
        OF new_context_example] cont
    by (simp add: function_value_fields)
  from 1 2 3 4 5 show ?thesis by (simp only: simp_thms)
qed

text \<open>
  Claim C2 as stated fails: the body \<^verbatim>\<open>BREAK\<close> produces neither an error nor a return
  value, the function has no automatic return, and the call does not succeed with the
  number 0: it returns the break signal.
\<close>

theorem function_return_value_counterexample:
  "visit (Suc 0) (BreakNode pos0 pos0) call_context call_heap
     = Some (Returned (success_break RuntimeResult), call_heap)
   \<and> rr_error (success_break RuntimeResult) = None
   \<and> func_return_value (success_break RuntimeResult) = None
   \<and> should_auto_return (payload (function_value (BreakNode pos0 pos0) False)) = False
   \<and> Function_execute (visit (Suc 0)) (function_value (BreakNode pos0 pos0) False) [] global_heap
       = Some (Returned (success_break RuntimeResult), call_heap)
   \<and> success_break RuntimeResult \<noteq> success RuntimeResult (Some (new_Number (PyInt 0)))"
  by (simp add: visit_node_def visit_breaknode_def Function_execute_def new_context_example
      check_and_populate_args_def function_value_fields register_def should_return_def
      then_visit_def success_def success_break_def RuntimeResult_def)
section \<open>Tracebacks\<close>

lemma frame_text_Some: "frame_text (Some q, c) = frame_line q c"
  by (simp add: frame_text_def)

lemma traceback_loop_frames:
  "list_all (\<lambda>f. fst f \<noteq> None) (frames c p)
   \<Longrightarrow> traceback_loop (Some c) p result = Inr (concat (map frame_text (rev (frames c p))) @ result)"
proof (induction c arbitrary: p result)
  case (Context nm parent_ctx entry_pos st)
  from Context.prems obtain q where q: "p = Some q" by auto
  show ?case
  proof (cases parent_ctx)
    case None
    then show ?thesis by (simp add: q frame_text_Some)
  next
    case (Some c')
    then have "list_all (\<lambda>f. fst f \<noteq> None) (frames c' entry_pos)"
      using Context.prems by simp
    then have "traceback_loop (Some c') entry_pos (frame_line q (Context nm parent_ctx entry_pos st) @ result)
        = Inr (concat (map frame_text (rev (frames c' entry_pos)))
               @ frame_line q (Context nm parent_ctx entry_pos st) @ result)"
      using Context.IH [of c'] Some by simp
    then show ?thesis by (simp add: q Some frame_text_Some)
  qed
qed

lemma frames_contexts: "map snd (frames c p) = context_chain c"
proof (induction c arbitrary: p)
  case (Context nm parent_ctx entry_pos st)
  then show ?case by (cases parent_ctx) simp_all
qed

lemma frames_root: "parent_context (snd (last (frames c p))) = None"
proof (induction c arbitrary: p)
  case (Context nm parent_ctx entry_pos st)
  show ?case
  proof (cases parent_ctx)
    case None
    then show ?thesis by simp
  next
    case (Some c')
    have "frames c' entry_pos \<noteq> []" by (cases c') simp
    then show ?thesis using Context [of c' entry_pos] Some by simp
  qed
qed

lemma frames_first: "hd (frames c p) = (p, c)"
  by (cases c) simp

lemma frames_not_empty: "frames c p \<noteq> []"
  by (cases c) simp

lemma traceback_loop_raises:
  "\<not> list_all (\<lambda>f. fst f \<noteq> None) (frames c p)
   \<Longrightarrow> traceback_loop (Some c) p result = Inl AttributeError"
proof (induction c arbitrary: p result)
  case (Context nm parent_ctx entry_pos st)
  show ?case
  proof (cases p)
    case None
    then show ?thesis by simp
  next
    case (Some q)
    show ?thesis
    proof (cases parent_ctx)
      case None
      then show ?thesis using Context.prems Some by simp
    next
      case (Some c')
      then have "\<not> list_all (\<lambda>f. fst f \<noteq> None) (frames c' entry_pos)"
        using Context.prems \<open>p = Some q\<close> by simp
      then have "traceback_loop (Some c') entry_pos
                   (frame_line q (Context nm parent_ctx entry_pos st) @ result)
                 = Inl AttributeError"
        using Context.IH [of c'] Some by simp
      then show ?thesis by (simp add: \<open>p = Some q\<close> Some)
    qed
  qed
qed

text \<open>
  Claim C9, as the code has it. Take an error that carries a context. Its frames are the
  contexts of the chain of parent links, the context of the error at the position of the
  error first, each parent at the position where it was left, the top-level context last.
  When every frame has a position, the traceback is the header followed by one line for
  each frame, the line of the top-level context first and the line of the context of the
  error, at the position of the error, last. When a frame has no position, there is no
  traceback: reading the position raises \<^verbatim>\<open>AttributeError\<close>.
\<close>
theorem traceback_root_first:
  assumes "err_context e = Some c"
  shows "generate_traceback e
           = (if list_all (\<lambda>f. fst f \<noteq> None) (frames c (err_start_pos e))
              then Inr (traceback_header
                        @ concat (map frame_text (rev (frames c (err_start_pos e)))))
              else Inl AttributeError)
   \<and> map snd (frames c (err_start_pos e)) = context_chain c
   \<and> parent_context (snd (hd (rev (frames c (err_start_pos e))))) = None
   \<and> last (rev (frames c (err_start_pos e))) = (err_start_pos e, c)"
proof -
  have "generate_traceback e
           = Inr (traceback_header @ concat (map frame_text (rev (frames c (err_start_pos e)))))"
    if ok: "list_all (\<lambda>f. fst f \<noteq> None) (frames c (err_start_pos e))"
  proof -
    have "traceback_loop (Some c) (err_start_pos e) []
        = Inr (concat (map frame_text (rev (frames c (err_start_pos e)))) @ [])"
      using ok by (rule traceback_loop_frames)
    then show ?thesis
      using assms by (simp add: generate_traceback_def traceback_header_def)
  qed
  moreover have "generate_traceback e = Inl AttributeError"
    if bad: "\<not> list_all (\<lambda>f. fst f \<noteq> None) (frames c (err_start_pos e))"
  proof -
    have "traceback_loop (Some c) (err_start_pos e) [] = Inl AttributeError"
      using bad by (rule traceback_loop_raises)
    then show ?thesis
      using assms by (simp add: generate_traceback_def)
  qed
  moreover have "parent_context (snd (hd (rev (frames c (err_start_pos e))))) = None"
    using frames_root [of c "err_start_pos e"] frames_not_empty [of c "err_start_pos e"]
    by (simp add: hd_rev)
  moreover have "last (rev (frames c (err_start_pos e))) = (err_start_pos e, c)"
    using frames_first [of c "err_start_pos e"] frames_not_empty [of c "err_start_pos e"]
    by (simp add: last_rev)
  ultimately show ?thesis by (simp add: frames_contexts)
qed

text \<open>
  The statement of C9 for an error on line 1 of a function called from line 5 of the
  program.
\<close>

theorem traceback_root_first_witness:
  "generate_traceback (ActiveRuntimeError ''Division by zero'' (Some pos0) (Some pos0)
                         (Some call_context))
     = Inr (traceback_header
            @ ''File <stdin>, line 5, in <program>'' @ [CHR 0x0A]
            @ ''File <stdin>, line 1, in f'' @ [CHR 0x0A])
   \<and> context_chain call_context = [call_context, program_context]"
proof -
  let ?e = "ActiveRuntimeError ''Division by zero'' (Some pos0) (Some pos0) (Some call_context)"
  have c: "err_context ?e = Some call_context" by (simp add: ActiveRuntimeError_def)
  have f: "frames call_context (err_start_pos ?e)
      = [(Some pos0, call_context), (Some pos1, program_context)]"
    by (simp add: ActiveRuntimeError_def call_context_def program_context_def)
  have t: "frame_text (Some pos1, program_context) = ''File <stdin>, line 5, in <program>'' @ [CHR 0x0A]"
    "frame_text (Some pos0, call_context) = ''File <stdin>, line 1, in f'' @ [CHR 0x0A]"
    by (simp_all add: frame_text_Some frame_line_def pos0_def pos1_def program_context_def
        call_context_def)
  show ?thesis
    using traceback_root_first [OF c] by (simp add: f t)
qed

text \<open>
  Claim C9 as stated fails: an error can carry a context and no position. The evaluation
  of \<^verbatim>\<open>5 / (IF 1 THEN 1 END)\<close>, the body of the \<^verbatim>\<open>IF\<close> on a line of its own, divides
  by the null that the \<^verbatim>\<open>IF\<close> returns, a Number without a position; the error
  "Division by zero" takes its position from the divisor and its context from the
  dividend. For that error \<^verbatim>\<open>generate_traceback\<close> lists no frame: it raises.
\<close>

theorem traceback_root_first_counterexample:
  "visit (Suc (Suc (Suc 0))) five_by_null program_context global_heap
     = Some (Returned (failure RuntimeResult
               (ActiveRuntimeError ''Division by zero'' None None (Some program_context))),
             global_heap)
   \<and> err_context (ActiveRuntimeError ''Division by zero'' None None (Some program_context))
       = Some program_context
   \<and> generate_traceback
         (ActiveRuntimeError ''Division by zero'' None None (Some program_context))
       = Inl AttributeError"
  by (simp add: five_by_null_def evaluation visit_branch_def is_true_def
      generate_traceback_def)

section \<open>Scenarios of the specification\<close>

text \<open>
  The model gives the results that the specification lists for its scenarios 3 and 4: the
  list of the squares 0, 1 and 4, and the number 9 for \<^verbatim>\<open>add(4, 5)\<close>, at the position
  and in the context of the call, in a store that holds the table of the call besides the
  top-level one.
\<close>

lemma scenario_for_squares:
  "visit (Suc (Suc (Suc 0))) for_squares program_context global_heap
     = Some (Returned (success RuntimeResult
               (Some (at_top (new_List [Some (at_top (new_Number (PyInt 0))), Some (at_top (new_Number (PyInt 1))),
                                        Some (at_top (new_Number (PyInt 4)))])))),
             set_sym global_heap 0 ''i'' (Some (new_Number (PyInt 2))))"
  by (simp add: for_squares_def evaluation visit_fornode_def for_run_def value_attr_def
      for_loop.simps loop_condition_def py_le_def py_less_def float_le_def loop_value_def
      visit_varaccessnode_def get.simps copy_def multiply_by_def
      new_List_def)

lemma scenario_add:
  "(case visit (Suc (Suc (Suc (Suc (Suc (Suc 0)))))) add_program program_context global_heap of
      Some (Returned res, h) \<Rightarrow>
        (case rr_value res of
           Some (Value (List xs) _ _ _) \<Rightarrow> Some (xs ! 1, length h)
         | _ \<Rightarrow> None)
    | _ \<Rightarrow> None)
   = Some (Some (Value (Number (PyInt 9)) (Some pos1) (Some pos1) (Some program_context)), 2)"
  by (simp add: add_program_def evaluation visit_listnode_def visit_funcdefnode_def
      visit_callnode_def visit_varaccessnode_def get.simps copy_def new_Function_def execute_def
      Function_execute_def generate_new_context_def SymbolTable_def check_and_populate_args_def
      py_or_def new_List_def Let_def)

end
